theory Spec2Isabelle
  imports Main
begin

section \<open>Notebook format: outputs\<close>

text \<open>
  An output entry is a JavaScript object tagged by its \<open>output_type\<close> field. The four
  kinds of the notebook format carry their payload; \<open>OtherOutput t\<close> stands for an object
  whose \<open>output_type\<close> is \<open>t\<close>, a string that is none of \<open>stream\<close>, \<open>execute_result\<close>,
  \<open>display_data\<close>, \<open>error\<close> (the I/O handler of \<open>executeCell\<close> tags every message of the
  kernel with its message type, for instance \<open>status\<close>, and forwards it to \<open>add\<close>).
  Strings are lists of code units; a mime bundle is an association list.
\<close>

type_synonym MimeBundle = "(string \<times> string) list"

datatype IOutput =
    Stream string string                   \<comment> \<open>name, text\<close>
  | ExecuteResult MimeBundle "int option"  \<comment> \<open>data, execution_count\<close>
  | DisplayData MimeBundle                 \<comment> \<open>data\<close>
  | Error string string "string list"      \<comment> \<open>ename, evalue, traceback\<close>
  | OtherOutput string                     \<comment> \<open>any other output_type\<close>

section \<open>Observable list\<close>

text \<open>
  Modelled from the spec: the observable list is the container of phosphor-observablelist,
  which is not under src/. Every mutation returns the new contents together with the one
  change event it emits. Negative indices address from the end; an index outside the
  list fails with \<open>OutOfRange\<close>. Reading with \<open>get\<close> outside the list gives \<open>undefined\<close>
  (\<open>None\<close>), which is what the callers in the source test for.
\<close>

datatype error = OutOfRange | TypeError

datatype 'a IListChangedArgs =
    ListAdd int 'a                     \<comment> \<open>newIndex, newValue\<close>
  | ListMove int int 'a                \<comment> \<open>oldIndex, newIndex, the moved value\<close>
  | ListRemove int 'a                  \<comment> \<open>oldIndex, oldValue\<close>
  | ListReplace int "'a list" "'a list" \<comment> \<open>index, oldValue, newValue\<close>
  | ListSet int 'a 'a                  \<comment> \<open>index, oldValue, newValue\<close>

definition norm_index :: "'a list \<Rightarrow> int \<Rightarrow> int" where
  "norm_index xs i = (if i < 0 then i + int (length xs) else i)"

definition ol_get :: "'a list \<Rightarrow> int \<Rightarrow> 'a option" where
  "ol_get xs i =
     (let j = norm_index xs i
      in if 0 \<le> j \<and> j < int (length xs) then Some (xs ! nat j) else None)"

definition ol_insert :: "'a list \<Rightarrow> int \<Rightarrow> 'a \<Rightarrow> error + ('a list \<times> 'a IListChangedArgs)" where
  "ol_insert xs i x =
     (let j = norm_index xs i
      in if 0 \<le> j \<and> j \<le> int (length xs)
         then Inr (take (nat j) xs @ x # drop (nat j) xs, ListAdd j x)
         else Inl OutOfRange)"

definition ol_add :: "'a list \<Rightarrow> 'a \<Rightarrow> 'a list \<times> 'a IListChangedArgs" where
  "ol_add xs x = (xs @ [x], ListAdd (int (length xs)) x)"

definition ol_removeAt :: "'a list \<Rightarrow> int \<Rightarrow> error + ('a list \<times> 'a IListChangedArgs)" where
  "ol_removeAt xs i =
     (let j = norm_index xs i
      in if 0 \<le> j \<and> j < int (length xs)
         then Inr (take (nat j) xs @ drop (Suc (nat j)) xs, ListRemove j (xs ! nat j))
         else Inl OutOfRange)"

definition ol_move :: "'a list \<Rightarrow> int \<Rightarrow> int \<Rightarrow> error + ('a list \<times> 'a IListChangedArgs)" where
  "ol_move xs i k =
     (let j = norm_index xs i; l = norm_index xs k
      in if 0 \<le> j \<and> j < int (length xs) \<and> 0 \<le> l \<and> l < int (length xs)
         then (let rest = take (nat j) xs @ drop (Suc (nat j)) xs
               in Inr (take (nat l) rest @ (xs ! nat j) # drop (nat l) rest,
                       ListMove j l (xs ! nat j)))
         else Inl OutOfRange)"

definition ol_set :: "'a list \<Rightarrow> int \<Rightarrow> 'a \<Rightarrow> error + ('a list \<times> 'a IListChangedArgs)" where
  "ol_set xs i x =
     (let j = norm_index xs i
      in if 0 \<le> j \<and> j < int (length xs)
         then Inr (xs[nat j := x], ListSet j (xs ! nat j) x)
         else Inl OutOfRange)"

definition ol_clear :: "'a list \<Rightarrow> 'a list \<times> 'a IListChangedArgs" where
  "ol_clear xs = ([], ListReplace 0 xs [])"

section \<open>Output area model\<close>

text \<open>
  \<open>OutputAreaModel\<close> of the output-area model file: the list of outputs and the private
  flag \<open>_clearNext\<close>. The flags \<open>trusted\<close>, \<open>collapsed\<close> and \<open>fixedHeight\<close> are
  independent properties that neither \<open>add\<close> nor \<open>clear\<close> reads or writes; they are left
  out. No handler of the model layer listens to the list of outputs, so the change events
  are dropped here.
\<close>

record OutputAreaModel =
  outputs :: "IOutput list"
  clearNext :: bool

definition new_OutputAreaModel :: OutputAreaModel where
  "new_OutputAreaModel = \<lparr>outputs = [], clearNext = False\<rparr>"

definition OutputAreaModel_clear :: "bool \<Rightarrow> OutputAreaModel \<Rightarrow> OutputAreaModel" where
  "OutputAreaModel_clear wait m =
     (if wait then m\<lparr>clearNext := True\<rparr>
      else m\<lparr>outputs := fst (ol_clear (outputs m))\<rparr>)"

text \<open>
  \<open>add\<close>: a pending clear is applied first. Then, when the new output and the last entry
  are streams of the same name, the new output gets the old text in front of its own and
  replaces the last entry (\<open>set(-1, output)\<close>); otherwise the output is appended when its
  kind is one of the four of the \<open>switch\<close>, and dropped when it is not. The \<open>set\<close> is
  only reached when a last entry exists, so its \<open>OutOfRange\<close> branch is never taken.
\<close>

definition OutputAreaModel_add :: "IOutput \<Rightarrow> OutputAreaModel \<Rightarrow> OutputAreaModel" where
  "OutputAreaModel_add out m0 =
     (let m = (if clearNext m0 then (OutputAreaModel_clear False m0)\<lparr>clearNext := False\<rparr> else m0);
          lastOutput = ol_get (outputs m) (- 1);
          appended = (case out of
                        OtherOutput _ \<Rightarrow> m
                      | _ \<Rightarrow> m\<lparr>outputs := fst (ol_add (outputs m) out)\<rparr>)
      in case (out, lastOutput) of
           (Stream nm txt, Some (Stream lnm ltxt)) \<Rightarrow>
             if nm = lnm
             then (case ol_set (outputs m) (- 1) (Stream nm (ltxt @ txt)) of
                     Inr (xs, _) \<Rightarrow> m\<lparr>outputs := xs\<rparr>
                   | Inl _ \<Rightarrow> m)
             else appended
         | _ \<Rightarrow> appended)"

section \<open>Cell models\<close>

text \<open>
  Modelled from the spec: the editor, input-area and cell model classes (editor/model.ts,
  input-area/model.ts, cells/model.ts) are not under src/. A cell is a tagged variant
  over code, markdown and raw with the attributes of the spec's data model; it is one
  record that carries the tag and the attributes of all three variants, a variant
  ignoring the attributes of the others. A property that was never written reads as its
  default (\<open>False\<close>, \<open>None\<close>, the empty list or string). The read-only state of a cell is
  the read-only state of the editor it owns: the notebook's factories hand the notebook's
  read-only state to the editor they create, and that is all they do for the read-only
  cascade.

  A cell is a value here. In the source the list of cells holds references; every cell
  the repository puts into the list is a new object from a factory, so two entries of
  the list are never the same object.
\<close>

record IEditorModel =
  editorText :: string
  mimetype :: "string option"
  editorReadOnly :: bool

record IInputAreaModel =
  textEditor :: IEditorModel
  prompt :: string

datatype CellType = Code | Markdown | Raw

record ICellModel =
  cellType :: CellType
  cellInput :: IInputAreaModel
  tags :: "string list"
  name :: "string option"
  trusted :: bool
  active :: bool
  selected :: bool
  cellOutput :: OutputAreaModel
  executionCount :: "int option"
  collapsed :: bool
  scrolled :: bool
  rendered :: bool
  format :: "string option"

definition cellText :: "ICellModel \<Rightarrow> string" where
  "cellText c = editorText (textEditor (cellInput c))"

definition set_cellText :: "string \<Rightarrow> ICellModel \<Rightarrow> ICellModel" where
  "set_cellText s c = c\<lparr>cellInput := (cellInput c)\<lparr>textEditor := (textEditor (cellInput c))\<lparr>editorText := s\<rparr>\<rparr>\<rparr>"

definition set_prompt :: "string \<Rightarrow> ICellModel \<Rightarrow> ICellModel" where
  "set_prompt s c = c\<lparr>cellInput := (cellInput c)\<lparr>prompt := s\<rparr>\<rparr>"

text \<open>
  Modelled from the spec: the accessors of the cell's \<open>readOnly\<close> property, of the cell
  classes that are not under src/. They read and write the read-only state of the
  cell's editor.
\<close>

definition cellReadOnly :: "ICellModel \<Rightarrow> bool" where
  "cellReadOnly c = editorReadOnly (textEditor (cellInput c))"

definition set_cellReadOnly :: "bool \<Rightarrow> ICellModel \<Rightarrow> ICellModel" where
  "set_cellReadOnly v c = c\<lparr>cellInput := (cellInput c)\<lparr>textEditor := (textEditor (cellInput c))\<lparr>editorReadOnly := v\<rparr>\<rparr>\<rparr>"

definition new_CellModel :: "CellType \<Rightarrow> IInputAreaModel \<Rightarrow> OutputAreaModel \<Rightarrow> ICellModel" where
  "new_CellModel t inp outp =
     \<lparr>cellType = t, cellInput = inp, tags = [], name = None, trusted = False, active = False,
      selected = False, cellOutput = outp, executionCount = None, collapsed = False,
      scrolled = False, rendered = False, format = None\<rparr>"

section \<open>Notebook model\<close>

text \<open>
  The session and the contents manager are external collaborators. A session is the
  record of what the model reads from it (\<open>isDisposed\<close>, \<open>notebookPath\<close>, the kernel's
  name, the answers of \<open>getKernelSpec\<close> and \<open>kernelInfo\<close>, \<open>None\<close> for a rejected
  promise) and of the execute requests the model sent to its kernel.
\<close>

datatype NotebookMode = Command | Edit

record ExecuteRequest =
  requestCode :: string
  silent :: bool
  store_history :: bool
  stop_on_error :: bool
  allow_stdin :: bool

record INotebookSession =
  isDisposed :: bool
  notebookPath :: string
  kernelName :: string
  kernelSpecDisplayName :: "string option"
  kernelLanguageInfo :: "string option"
  executeRequests :: "ExecuteRequest list"

record INotebookMetadata =
  kernelspec_name :: string
  kernelspec_display_name :: string
  language_info :: string

text \<open>
  The properties of \<open>NotebookModelPrivate\<close> have no default but \<open>defaultMimetype\<close>: an
  unset \<open>mode\<close> or \<open>activeCellIndex\<close> reads as \<open>undefined\<close> (\<open>None\<close>), an unset boolean is
  falsy (\<open>False\<close>). Indices are integers. \<open>selectedCellIndex\<close> is the property that
  \<open>deserialize\<close> writes on the model object; nothing in the model reads it.
\<close>

record NotebookModel =
  cells :: "ICellModel list"
  mode :: "NotebookMode option"
  defaultMimetype :: string
  readOnly :: bool
  session :: "INotebookSession option"
  metadata :: INotebookMetadata
  activeCellIndex :: "int option"
  dirty :: bool
  selectedCellIndex :: "int option"

definition new_NotebookModel :: NotebookModel where
  "new_NotebookModel =
     \<lparr>cells = [], mode = None, defaultMimetype = ''text/x-ipython'', readOnly = False,
      session = None,
      metadata = \<lparr>kernelspec_name = [], kernelspec_display_name = [], language_info = []\<rparr>,
      activeCellIndex = None, dirty = False, selectedCellIndex = None\<rparr>"

text \<open>The setter of \<open>readOnly\<close>: the property, then every cell of the list.\<close>

definition set_readOnly :: "bool \<Rightarrow> NotebookModel \<Rightarrow> NotebookModel" where
  "set_readOnly v nb = nb\<lparr>readOnly := v, cells := map (set_cellReadOnly v) (cells nb)\<rparr>"

text \<open>
  The setter of \<open>activeCellIndex\<close>: \<open>Math.max(value, 0)\<close>, then
  \<open>Math.min(value, length - 1)\<close>, the property, then the loop over all cells writing
  \<open>cell.active = (value === i)\<close>.
\<close>

definition set_activeCellIndex :: "int \<Rightarrow> NotebookModel \<Rightarrow> NotebookModel" where
  "set_activeCellIndex v nb =
     (let v1 = max v 0;
          v2 = min v1 (int (length (cells nb)) - 1)
      in nb\<lparr>activeCellIndex := Some v2,
            cells := map (\<lambda>(i, c). c\<lparr>active := (v2 = int i)\<rparr>) (enumerate 0 (cells nb))\<rparr>)"

text \<open>
  \<open>_onCellsChanged\<close>, the model's handler of the change events of its list of cells. For
  \<open>Add\<close> it connects the cell's signal and makes the new index the active one; for
  \<open>Remove\<close> it disposes of the removed cell and clamps the active index; for \<open>Replace\<close>
  it disposes of the old cells. Disposal touches only cells that have left the list.
\<close>

fun NotebookModel_onCellsChanged :: "ICellModel IListChangedArgs \<Rightarrow> NotebookModel \<Rightarrow> NotebookModel" where
  "NotebookModel_onCellsChanged (ListAdd newIndex newValue) nb = set_activeCellIndex newIndex nb"
| "NotebookModel_onCellsChanged (ListRemove oldIndex oldValue) nb =
     set_activeCellIndex (min oldIndex (int (length (cells nb)) - 1)) nb"
| "NotebookModel_onCellsChanged (ListReplace _ _ _) nb = nb"
| "NotebookModel_onCellsChanged _ nb = nb"

text \<open>
  The mutations of \<open>model.cells\<close>: the list operation, then the handler with the event,
  as the signal calls it before the operation returns.
\<close>

definition cells_add :: "ICellModel \<Rightarrow> NotebookModel \<Rightarrow> NotebookModel" where
  "cells_add c nb = (case ol_add (cells nb) c of (xs, ev) \<Rightarrow> NotebookModel_onCellsChanged ev (nb\<lparr>cells := xs\<rparr>))"

definition cells_insert :: "int \<Rightarrow> ICellModel \<Rightarrow> NotebookModel \<Rightarrow> error + NotebookModel" where
  "cells_insert i c nb =
     (case ol_insert (cells nb) i c of
        Inl e \<Rightarrow> Inl e
      | Inr (xs, ev) \<Rightarrow> Inr (NotebookModel_onCellsChanged ev (nb\<lparr>cells := xs\<rparr>)))"

definition cells_removeAt :: "int \<Rightarrow> NotebookModel \<Rightarrow> error + NotebookModel" where
  "cells_removeAt i nb =
     (case ol_removeAt (cells nb) i of
        Inl e \<Rightarrow> Inl e
      | Inr (xs, ev) \<Rightarrow> Inr (NotebookModel_onCellsChanged ev (nb\<lparr>cells := xs\<rparr>)))"

definition cells_clear :: "NotebookModel \<Rightarrow> NotebookModel" where
  "cells_clear nb = (case ol_clear (cells nb) of (xs, ev) \<Rightarrow> NotebookModel_onCellsChanged ev (nb\<lparr>cells := xs\<rparr>))"

subsection \<open>Cell factories\<close>

definition createEditor :: "string option \<Rightarrow> bool \<Rightarrow> IEditorModel" where
  "createEditor mt ro = \<lparr>editorText = [], mimetype = mt, editorReadOnly = ro\<rparr>"

definition createInput :: "IEditorModel \<Rightarrow> IInputAreaModel" where
  "createInput editor = \<lparr>textEditor = editor, prompt = []\<rparr>"

definition createOutputArea :: OutputAreaModel where
  "createOutputArea = new_OutputAreaModel"

text \<open>
  The first lines the three factories share when a source cell is given: \<open>trusted\<close>, the
  text and the tags are copied. The text is written before the editor's signal is
  connected, so it does not mark the notebook dirty.
\<close>

definition copy_common :: "ICellModel \<Rightarrow> ICellModel \<Rightarrow> ICellModel" where
  "copy_common src cell = (set_cellText (cellText src) (cell\<lparr>trusted := trusted src\<rparr>))\<lparr>tags := tags src\<rparr>"

definition createCodeCell :: "ICellModel option \<Rightarrow> NotebookModel \<Rightarrow> ICellModel" where
  "createCodeCell source nb =
     (let mt = (case source of
                  None \<Rightarrow> Some (defaultMimetype nb)
                | Some src \<Rightarrow> if cellType src = Code then mimetype (textEditor (cellInput src))
                              else Some (defaultMimetype nb));
          editor = createEditor mt (readOnly nb);
          cell = (new_CellModel Code (createInput editor) createOutputArea)\<lparr>trusted := True\<rparr>
      in case source of
           None \<Rightarrow> cell
         | Some src \<Rightarrow>
             (let cell1 = copy_common src cell
              in if cellType src = Code
                 then cell1\<lparr>collapsed := collapsed src, scrolled := scrolled src,
                            cellOutput := (cellOutput cell1)\<lparr>outputs :=
                               foldl (\<lambda>xs x. fst (ol_add xs x)) (outputs (cellOutput cell1))
                                     (outputs (cellOutput src))\<rparr>\<rparr>
                 else cell1))"

definition createMarkdownCell :: "ICellModel option \<Rightarrow> NotebookModel \<Rightarrow> ICellModel" where
  "createMarkdownCell source nb =
     (let editor = createEditor (Some ''text/x-ipythongfm'') (readOnly nb);
          cell = (new_CellModel Markdown (createInput editor) new_OutputAreaModel)\<lparr>trusted := True\<rparr>
      in case source of
           None \<Rightarrow> cell
         | Some src \<Rightarrow>
             (let cell1 = copy_common src cell
              in if cellType src = Markdown then cell1\<lparr>rendered := rendered src\<rparr> else cell1))"

definition createRawCell :: "ICellModel option \<Rightarrow> NotebookModel \<Rightarrow> ICellModel" where
  "createRawCell source nb =
     (let editor = createEditor None (readOnly nb);
          cell = (new_CellModel Raw (createInput editor) new_OutputAreaModel)\<lparr>trusted := True\<rparr>
      in case source of
           None \<Rightarrow> cell
         | Some src \<Rightarrow>
             (let cell1 = copy_common src cell
              in if cellType src = Raw then cell1\<lparr>format := format src\<rparr> else cell1))"

subsection \<open>Running cells\<close>

text \<open>
  \<open>String.prototype.trim\<close> removes white space and line terminators from both ends. Of
  the code units below 256 these are tab, line feed, vertical tab, form feed, carriage
  return, space and the no-break space.
\<close>

definition isWhiteSpace :: "char \<Rightarrow> bool" where
  "isWhiteSpace c = (of_char c \<in> set [9, 10, 11, 12, 13, 32, 160 :: nat])"

definition trim :: "string \<Rightarrow> string" where
  "trim s = rev (dropWhile isWhiteSpace (rev (dropWhile isWhiteSpace s)))"

text \<open>
  \<open>executeCell\<close> mutates the cell it is given and talks to the session; it returns the
  cell and the notebook, whose session records the execute request when one is sent. The
  replies of the kernel come later, through the handlers \<open>onIOPub\<close> and \<open>onReply\<close>.
\<close>

definition executeCell :: "ICellModel \<Rightarrow> NotebookModel \<Rightarrow> ICellModel \<times> NotebookModel" where
  "executeCell cell nb =
     (if readOnly nb then (cell, nb)
      else if trim (cellText cell) = [] then (set_prompt ''In [ ]:'' cell, nb)
      else case session nb of
             None \<Rightarrow> (cell, nb)
           | Some s \<Rightarrow>
               (let cell1 = set_prompt ''In [*]:'' cell;
                    exRequest = \<lparr>requestCode = cellText cell1, silent = False, store_history = True,
                                 stop_on_error = True, allow_stdin = True\<rparr>;
                    s1 = s\<lparr>executeRequests := executeRequests s @ [exRequest]\<rparr>;
                    cell2 = cell1\<lparr>cellOutput := OutputAreaModel_clear False (cellOutput cell1)\<rparr>
                in (cell2\<lparr>trusted := True\<rparr>, nb\<lparr>session := Some s1\<rparr>)))"

text \<open>
  The cell that \<open>cells.get(index)\<close> returned is an object of the list; writing to it is
  writing to the list at that position.
\<close>

definition update_cell :: "int \<Rightarrow> ICellModel \<Rightarrow> NotebookModel \<Rightarrow> NotebookModel" where
  "update_cell i c nb = nb\<lparr>cells := (cells nb)[nat (norm_index (cells nb) i) := c]\<rparr>"

text \<open>
  The dispatch of \<open>runActiveCell\<close> on the kind of the active cell: a markdown cell becomes
  trusted and rendered, a code cell is executed, any other cell becomes trusted.
\<close>

definition run_dispatch :: "int \<Rightarrow> ICellModel \<Rightarrow> NotebookModel \<Rightarrow> NotebookModel" where
  "run_dispatch idx cell nb =
     (if cellType cell = Markdown
      then update_cell idx (cell\<lparr>trusted := True, rendered := True\<rparr>) nb
      else if cellType cell = Code
      then (case executeCell cell nb of (cell', nb') \<Rightarrow> update_cell idx cell' nb')
      else update_cell idx (cell\<lparr>trusted := True\<rparr>) nb)"

text \<open>
  \<open>runActiveCell\<close>. An \<open>undefined\<close> active index reads no cell. After the dispatch the
  active index is compared with the last position: there a new code cell is added and
  the mode becomes \<open>edit\<close>, elsewhere the active index is set to its successor.
\<close>

definition runActiveCell :: "NotebookModel \<Rightarrow> NotebookModel" where
  "runActiveCell nb =
     (if readOnly nb then nb
      else case activeCellIndex nb of
             None \<Rightarrow> nb
           | Some idx \<Rightarrow>
               (case ol_get (cells nb) idx of
                  None \<Rightarrow> nb
                | Some cell \<Rightarrow>
                    (let nb1 = run_dispatch idx cell nb
                     in case activeCellIndex nb1 of
                          None \<Rightarrow> nb1
                        | Some a \<Rightarrow>
                            if a = int (length (cells nb1)) - 1
                            then (cells_add (createCodeCell None nb1) nb1)\<lparr>mode := Some Edit\<rparr>
                            else set_activeCellIndex (a + 1) nb1)))"

section \<open>Serialization\<close>

text \<open>
  The persisted document. A cell of the document is one of three shapes; its \<open>source\<close> is
  a string or a list of lines. The arguments of the constructors are, in this order:
  \<open>source\<close>, \<open>metadata.tags\<close>, \<open>metadata.name\<close>, then for a code cell
  \<open>metadata.collapsed\<close>, \<open>metadata.scrolled\<close>, \<open>outputs\<close>, \<open>execution_count\<close>, and for a raw
  cell \<open>metadata.format\<close>. The version constants \<open>MAJOR_VERSION\<close> and \<open>MINOR_VERSION\<close> of
  the format's declarations are not under src/; \<open>serialize\<close> takes them as parameters.
\<close>

datatype MultilineString = Single string | Lines "string list"

datatype ICell =
    ICodeCell MultilineString "string list" "string option" bool bool "IOutput list" "int option"
  | IMarkdownCell MultilineString "string list" "string option"
  | IRawCell MultilineString "string list" "string option" "string option"

record INotebookContent =
  content_cells :: "ICell list"
  content_metadata :: INotebookMetadata
  nbformat :: nat
  nbformat_minor :: nat

fun cell_source :: "ICell \<Rightarrow> MultilineString" where
  "cell_source (ICodeCell s _ _ _ _ _ _) = s"
| "cell_source (IMarkdownCell s _ _) = s"
| "cell_source (IRawCell s _ _ _) = s"

fun cell_tags :: "ICell \<Rightarrow> string list" where
  "cell_tags (ICodeCell _ t _ _ _ _ _) = t"
| "cell_tags (IMarkdownCell _ t _) = t"
| "cell_tags (IRawCell _ t _ _) = t"

fun cell_name :: "ICell \<Rightarrow> string option" where
  "cell_name (ICodeCell _ _ n _ _ _ _) = n"
| "cell_name (IMarkdownCell _ _ n) = n"
| "cell_name (IRawCell _ _ n _) = n"

fun isMarkdownCell :: "ICell \<Rightarrow> bool" where
  "isMarkdownCell (IMarkdownCell _ _ _) = True"
| "isMarkdownCell _ = False"

fun isCodeCell :: "ICell \<Rightarrow> bool" where
  "isCodeCell (ICodeCell _ _ _ _ _ _ _) = True"
| "isCodeCell _ = False"

fun join_lines :: "string list \<Rightarrow> string" where
  "join_lines [] = []"
| "join_lines [l] = l"
| "join_lines (l # ls) = l @ CHR 0x0A # join_lines ls"

definition serializeCell :: "ICellModel \<Rightarrow> ICell" where
  "serializeCell cell =
     (if cellType cell = Raw
      then IRawCell (Single (cellText cell)) (tags cell) (name cell) (format cell)
      else if cellType cell = Code
      then ICodeCell (Single (cellText cell)) (tags cell) (name cell) (collapsed cell) (scrolled cell)
             (foldl (\<lambda>outs out. outs @ [out]) [] (outputs (cellOutput cell))) (executionCount cell)
      else IMarkdownCell (Single (cellText cell)) (tags cell) (name cell))"

definition serialize :: "nat \<Rightarrow> nat \<Rightarrow> NotebookModel \<Rightarrow> INotebookContent" where
  "serialize major minor nb =
     \<lparr>content_cells = foldl (\<lambda>cs cell. cs @ [serializeCell cell]) [] (cells nb),
      content_metadata = metadata nb, nbformat = major, nbformat_minor = minor\<rparr>"

text \<open>
  \<open>deserializeCell\<close> branches on the kind of the model and reads the fields of the data
  as those of that kind. For a code model the data's \<open>outputs\<close> are added one by one
  through \<open>add\<close> of the output area; data of another shape have no \<open>outputs\<close>, and
  reading their length is a \<open>TypeError\<close>.
\<close>

definition deserializeCell :: "ICell \<Rightarrow> ICellModel \<Rightarrow> error + ICellModel" where
  "deserializeCell data model =
     (let source = (case cell_source data of Single s \<Rightarrow> s | Lines ls \<Rightarrow> join_lines ls);
          m1 = (set_cellText source model)\<lparr>tags := cell_tags data, name := cell_name data\<rparr>
      in if cellType m1 = Code
         then (case data of
                 ICodeCell _ _ _ coll scr outs ec \<Rightarrow>
                   Inr (m1\<lparr>collapsed := coll, scrolled := scr, executionCount := ec,
                           cellOutput := foldl (\<lambda>area out. OutputAreaModel_add out area) (cellOutput m1) outs\<rparr>)
               | _ \<Rightarrow> Inl TypeError)
         else if cellType m1 = Raw
         then Inr (m1\<lparr>format := (case data of IRawCell _ _ _ f \<Rightarrow> f | _ \<Rightarrow> None)\<rparr>)
         else Inr m1)"

text \<open>
  The loop of \<open>deserialize\<close> over the cells of the document. The editor of a cell from a
  factory is connected to \<open>onEditorChanged\<close>, so writing a text that differs from the
  editor's marks the notebook dirty.
\<close>

fun deserialize_cells :: "ICell list \<Rightarrow> NotebookModel \<Rightarrow> error + NotebookModel" where
  "deserialize_cells [] model = Inr model"
| "deserialize_cells (c # cs) model =
     (let cell = (if isMarkdownCell c then createMarkdownCell None model
                  else if isCodeCell c then createCodeCell None model
                  else createRawCell None model)
      in case deserializeCell c cell of
           Inl e \<Rightarrow> Inl e
         | Inr cell' \<Rightarrow>
             deserialize_cells cs
               (cells_add cell' (if cellText cell' \<noteq> cellText cell then model\<lparr>dirty := True\<rparr> else model)))"

definition deserialize :: "INotebookContent \<Rightarrow> NotebookModel \<Rightarrow> error + NotebookModel" where
  "deserialize data model =
     (case deserialize_cells (content_cells data) (cells_clear model) of
        Inl e \<Rightarrow> Inl e
      | Inr m \<Rightarrow>
          Inr ((if length (cells m) \<noteq> 0 then m\<lparr>selectedCellIndex := Some 0\<rparr> else m)
                 \<lparr>metadata := content_metadata data\<rparr>))"

subsection \<open>Saving\<close>

text \<open>
  The contents manager is the record of what it accepts and of what it was given to
  save. A call of \<open>save\<close> ends in one of three ways: an exception thrown before a promise
  is returned (\<open>Inl\<close>), a fulfilled promise, or a rejected one, each with the state of
  the notebook and of the manager at that point.
\<close>

record IContentsManager =
  accepts :: "string \<Rightarrow> INotebookContent \<Rightarrow> bool"
  saved :: "(string \<times> INotebookContent) list"

datatype 'a Promise = Fulfilled 'a | Rejected 'a

text \<open>
  \<open>_save\<close>: the notebook is serialized, the path is read from \<open>this.session\<close>, and the
  manager saves under that path. Reading \<open>notebookPath\<close> of an absent session is a
  \<open>TypeError\<close>.
\<close>

definition private_save ::
  "nat \<Rightarrow> nat \<Rightarrow> IContentsManager \<Rightarrow> NotebookModel \<Rightarrow> error + (NotebookModel \<times> IContentsManager) Promise" where
  "private_save major minor manager nb =
     (let content = serialize major minor nb
      in case session nb of
           None \<Rightarrow> Inl TypeError
         | Some s \<Rightarrow>
             (let path = notebookPath s
              in if accepts manager path content
                 then Inr (Fulfilled (nb\<lparr>dirty := False\<rparr>, manager\<lparr>saved := saved manager @ [(path, content)]\<rparr>))
                 else Inr (Rejected (nb, manager))))"

definition NotebookModel_save ::
  "nat \<Rightarrow> nat \<Rightarrow> IContentsManager \<Rightarrow> NotebookModel \<Rightarrow> error + (NotebookModel \<times> IContentsManager) Promise" where
  "NotebookModel_save major minor manager nb =
     (case session nb of
        None \<Rightarrow> private_save major minor manager nb
      | Some s \<Rightarrow>
          if isDisposed s then private_save major minor manager nb
          else (case kernelSpecDisplayName s of
                  None \<Rightarrow> Inr (Rejected (nb, manager))
                | Some display_name \<Rightarrow>
                    (let nb1 = nb\<lparr>metadata := (metadata nb)\<lparr>kernelspec_display_name := display_name,
                                                              kernelspec_name := kernelName s\<rparr>\<rparr>
                     in case kernelLanguageInfo s of
                          None \<Rightarrow> Inr (Rejected (nb1, manager))
                        | Some info \<Rightarrow>
                            private_save major minor manager
                              (nb1\<lparr>metadata := (metadata nb1)\<lparr>language_info := info\<rparr>\<rparr>))))"

section \<open>Notebook widget\<close>

text \<open>
  Modelled from the spec: the widget and panel-layout classes are those of
  phosphor-widget and phosphor-panel, not under src/. A widget is an object with an
  identity, here the number of widgets constructed before it, and the cell model it was
  built for. The layout of the cells is the list of its children; \<open>childAt\<close> outside the
  list is \<open>undefined\<close>, \<open>removeChild\<close> takes a child out, \<open>insertChild\<close> puts a widget at
  an index clamped to the list, moving it when it is a child already, and \<open>addChild\<close>
  inserts at the end. The state also counts the constructed widgets and lists the
  disposed ones.
\<close>

record Widget =
  widgetId :: nat
  widgetModel :: ICellModel

record NotebookWidget =
  children :: "Widget list"
  constructed :: nat
  disposed :: "nat list"

definition createCell :: "ICellModel \<Rightarrow> NotebookWidget \<Rightarrow> Widget \<times> NotebookWidget" where
  "createCell cell st = (\<lparr>widgetId = constructed st, widgetModel = cell\<rparr>, st\<lparr>constructed := Suc (constructed st)\<rparr>)"

definition childAt :: "int \<Rightarrow> NotebookWidget \<Rightarrow> Widget option" where
  "childAt i st = (if 0 \<le> i \<and> i < int (length (children st)) then Some (children st ! nat i) else None)"

definition removeChild :: "Widget \<Rightarrow> NotebookWidget \<Rightarrow> NotebookWidget" where
  "removeChild w st = st\<lparr>children := filter (\<lambda>x. widgetId x \<noteq> widgetId w) (children st)\<rparr>"

definition insertChild :: "int \<Rightarrow> Widget \<Rightarrow> NotebookWidget \<Rightarrow> NotebookWidget" where
  "insertChild i w st =
     (let rest = filter (\<lambda>x. widgetId x \<noteq> widgetId w) (children st);
          j = nat (max 0 (min i (int (length rest))))
      in st\<lparr>children := take j rest @ w # drop j rest\<rparr>)"

definition addChild :: "Widget \<Rightarrow> NotebookWidget \<Rightarrow> NotebookWidget" where
  "addChild w st = insertChild (int (length (children st))) w st"

definition dispose :: "Widget \<Rightarrow> NotebookWidget \<Rightarrow> NotebookWidget" where
  "dispose w st = st\<lparr>disposed := widgetId w # disposed st\<rparr>"

text \<open>
  The constructor of the notebook widget adds one widget for each cell of the model.
\<close>

definition new_NotebookWidget :: "NotebookModel \<Rightarrow> NotebookWidget" where
  "new_NotebookWidget model =
     foldl (\<lambda>st cell. case createCell cell st of (w, st1) \<Rightarrow> addChild w st1)
       \<lparr>children = [], constructed = 0, disposed = []\<rparr> (cells model)"

text \<open>
  The first loop of the \<open>Replace\<close> case: \<open>i\<close> runs from the number of old values down to
  \<open>1\<close>, and the child at \<open>i\<close> is removed and disposed of. Where there is no child at \<open>i\<close>,
  \<open>widget\<close> is \<open>undefined\<close> and \<open>widget.dispose()\<close> is a \<open>TypeError\<close>.
\<close>

fun replace_remove_loop :: "nat \<Rightarrow> NotebookWidget \<Rightarrow> error + NotebookWidget" where
  "replace_remove_loop 0 st = Inr st"
| "replace_remove_loop (Suc i) st =
     (case childAt (int (Suc i)) st of
        None \<Rightarrow> Inl TypeError
      | Some w \<Rightarrow> replace_remove_loop i (dispose w (removeChild w st)))"

fun replace_add_loop :: "ICellModel list \<Rightarrow> NotebookWidget \<Rightarrow> NotebookWidget" where
  "replace_add_loop [] st = st"
| "replace_add_loop (c # cs) st = (case createCell c st of (w, st1) \<Rightarrow> replace_add_loop cs (addChild w st1))"

text \<open>\<open>onCellsChanged\<close> of the notebook widget.\<close>

fun NotebookWidget_onCellsChanged :: "ICellModel IListChangedArgs \<Rightarrow> NotebookWidget \<Rightarrow> error + NotebookWidget" where
  "NotebookWidget_onCellsChanged (ListAdd newIndex newValue) st =
     (case createCell newValue st of (w, st1) \<Rightarrow> Inr (insertChild newIndex w st1))"
| "NotebookWidget_onCellsChanged (ListMove oldIndex newIndex _) st =
     (case childAt oldIndex st of
        None \<Rightarrow> Inl TypeError
      | Some w \<Rightarrow> Inr (insertChild newIndex w st))"
| "NotebookWidget_onCellsChanged (ListRemove oldIndex _) st =
     (case childAt oldIndex st of
        None \<Rightarrow> Inl TypeError
      | Some w \<Rightarrow> Inr (dispose w (removeChild w st)))"
| "NotebookWidget_onCellsChanged (ListReplace _ oldValue newValue) st =
     (case replace_remove_loop (length oldValue) st of
        Inl e \<Rightarrow> Inl e
      | Inr st1 \<Rightarrow> Inr (replace_add_loop newValue st1))"
| "NotebookWidget_onCellsChanged (ListSet newIndex _ newValue) st =
     (case childAt newIndex st of
        None \<Rightarrow> Inl TypeError
      | Some w \<Rightarrow>
          (case createCell newValue (dispose w (removeChild w st)) of
             (w', st1) \<Rightarrow> Inr (insertChild newIndex w' st1)))"

section \<open>Properties and examples\<close>

text \<open>
  The state of a layout whose children are distinct widgets that were all constructed
  through \<open>createCell\<close>.
\<close>

definition widgets_ok :: "NotebookWidget \<Rightarrow> bool" where
  "widgets_ok st =
     (distinct (map widgetId (children st))
      \<and> list_all (\<lambda>w. widgetId w < constructed st) (children st))"

text \<open>
  The documents that a round trip reproduces: every source is a single string, and the
  outputs of every code cell are of the four known kinds with no stream directly after a
  stream of the same name.
\<close>

fun known_kind :: "IOutput \<Rightarrow> bool" where
  "known_kind (OtherOutput _) = False"
| "known_kind _ = True"

fun same_stream :: "IOutput \<Rightarrow> IOutput \<Rightarrow> bool" where
  "same_stream (Stream n _) (Stream m _) = (n = m)"
| "same_stream _ _ = False"

fun merged_outputs :: "IOutput list \<Rightarrow> bool" where
  "merged_outputs (x # y # ys) = (\<not> same_stream x y \<and> merged_outputs (y # ys))"
| "merged_outputs _ = True"

fun is_single :: "MultilineString \<Rightarrow> bool" where
  "is_single (Single _) = True"
| "is_single (Lines _) = False"

fun plain_cell :: "ICell \<Rightarrow> bool" where
  "plain_cell (ICodeCell src _ _ _ _ outs _) = (is_single src \<and> list_all known_kind outs \<and> merged_outputs outs)"
| "plain_cell (IMarkdownCell src _ _) = is_single src"
| "plain_cell (IRawCell src _ _ _) = is_single src"

definition two_cell_document :: INotebookContent where
  "two_cell_document =
     \<lparr>content_cells = [IMarkdownCell (Single ''# title'') [] None,
                       ICodeCell (Single ''1 + 1'') [] None False False [] None],
      content_metadata = \<lparr>kernelspec_name = ''python3'', kernelspec_display_name = ''Python 3'',
                           language_info = ''python''\<rparr>,
      nbformat = 4, nbformat_minor = 0\<rparr>"

definition full_document :: INotebookContent where
  "full_document =
     \<lparr>content_cells =
        [ICodeCell (Single ''print(1)'') [''a'', ''b''] (Some ''first'') False True
           [Stream ''stdout'' ''1'', Stream ''stderr'' ''w'', ExecuteResult [(''text/plain'', ''1'')] (Some 1)]
           (Some 1),
         IMarkdownCell (Single ''# title'') [''doc''] None,
         IRawCell (Single ''raw'') [''r''] None (Some ''text/html'')],
      content_metadata = \<lparr>kernelspec_name = ''python3'', kernelspec_display_name = ''Python 3'',
                           language_info = ''python''\<rparr>,
      nbformat = 4, nbformat_minor = 0\<rparr>"

definition split_stream_document :: INotebookContent where
  "split_stream_document =
     \<lparr>content_cells =
        [ICodeCell (Single ''print(1)'') [''a''] None False False
           [Stream ''stdout'' ''a'', Stream ''stdout'' ''b''] (Some 1)],
      content_metadata = \<lparr>kernelspec_name = ''python3'', kernelspec_display_name = ''Python 3'',
                           language_info = ''python''\<rparr>,
      nbformat = 4, nbformat_minor = 0\<rparr>"

definition lines_document :: INotebookContent where
  "lines_document =
     \<lparr>content_cells = [IMarkdownCell (Lines [''a'', ''b'']) [] None],
      content_metadata = \<lparr>kernelspec_name = ''python3'', kernelspec_display_name = ''Python 3'',
                           language_info = ''python''\<rparr>,
      nbformat = 4, nbformat_minor = 0\<rparr>"

text \<open>
  The property of the active-cell invariant: the active index is a position of the list,
  the \<open>active\<close> flag of the cell at position \<open>i\<close> says whether \<open>i\<close> is the active index,
  and exactly one cell is active.
\<close>

definition one_active_at_index :: "NotebookModel \<Rightarrow> bool" where
  "one_active_at_index nb =
     (case activeCellIndex nb of
        None \<Rightarrow> False
      | Some k \<Rightarrow> 0 \<le> k \<and> k < int (length (cells nb))
                 \<and> map active (cells nb) = map (\<lambda>i. k = int i) [0..<length (cells nb)]
                 \<and> length (filter active (cells nb)) = 1)"

definition example_notebook :: NotebookModel where
  "example_notebook =
     cells_add (createRawCell None new_NotebookModel)
       (cells_add (createCodeCell None new_NotebookModel) new_NotebookModel)"

definition raw_notebook :: NotebookModel where
  "raw_notebook = cells_add (createRawCell None new_NotebookModel) new_NotebookModel"

section \<open>Output area: stream consolidation and deferred clear\<close>

lemma ol_get_last: "xs \<noteq> [] \<Longrightarrow> ol_get xs (- 1) = Some (last xs)"
  by (cases xs rule: rev_cases) (simp_all add: ol_get_def norm_index_def)

lemma ol_get_Nil: "ol_get [] i = None"
  by (simp add: ol_get_def norm_index_def)

lemma ol_set_last: "xs \<noteq> [] \<Longrightarrow> ol_set xs (- 1) x = Inr (butlast xs @ [x], ListSet (int (length xs) - 1) (last xs) x)"
  by (cases xs rule: rev_cases) (simp_all add: ol_set_def norm_index_def)

lemma add_same_stream:
  assumes "\<not> clearNext m" "outputs m \<noteq> []" "last (outputs m) = Stream n t"
  shows "OutputAreaModel_add (Stream n t') m = m\<lparr>outputs := butlast (outputs m) @ [Stream n (t @ t')]\<rparr>"
  using assms by (simp add: OutputAreaModel_add_def ol_get_last ol_set_last)

lemma add_to_empty:
  assumes "\<not> clearNext m" "outputs m = []"
  shows "OutputAreaModel_add out m = (case out of OtherOutput _ \<Rightarrow> m | _ \<Rightarrow> m\<lparr>outputs := [out]\<rparr>)"
  using assms by (cases out) (simp_all add: OutputAreaModel_add_def ol_get_Nil ol_add_def)

text \<open>
  C1 (as amended). In an output area with no deferred clear pending whose last entry is
  \<open>Stream n t\<close>, adding \<open>Stream n t'\<close> keeps the length of the list and replaces the last
  entry by \<open>Stream n (t @ t')\<close>. On a new output area, adding \<open>Stream stdout a\<close> and then
  \<open>Stream stdout b\<close> leaves the single entry \<open>Stream stdout ab\<close>; adding
  \<open>Stream stdout a\<close> and then \<open>Stream stderr b\<close> leaves two entries.
\<close>

theorem add_consolidates_streams:
  assumes "\<not> clearNext m" and "outputs m \<noteq> []" and "last (outputs m) = Stream n t"
  shows "outputs (OutputAreaModel_add (Stream n t') m) = butlast (outputs m) @ [Stream n (t @ t')]
       \<and> length (outputs (OutputAreaModel_add (Stream n t') m)) = length (outputs m)
       \<and> outputs (OutputAreaModel_add (Stream ''stdout'' ''b'')
                   (OutputAreaModel_add (Stream ''stdout'' ''a'') new_OutputAreaModel))
           = [Stream ''stdout'' ''ab'']
       \<and> outputs (OutputAreaModel_add (Stream ''stderr'' ''b'')
                   (OutputAreaModel_add (Stream ''stdout'' ''a'') new_OutputAreaModel))
           = [Stream ''stdout'' ''a'', Stream ''stderr'' ''b'']"
proof -
  have general: "outputs (OutputAreaModel_add (Stream n t') m) = butlast (outputs m) @ [Stream n (t @ t')]"
    using assms by (simp add: add_same_stream)
  have len: "length (outputs (OutputAreaModel_add (Stream n t') m)) = length (outputs m)"
    using assms(2) by (simp add: general)
  have first: "OutputAreaModel_add (Stream ''stdout'' ''a'') new_OutputAreaModel
                 = \<lparr>outputs = [Stream ''stdout'' ''a''], clearNext = False\<rparr>"
    by (simp add: add_to_empty new_OutputAreaModel_def)
  have same: "outputs (OutputAreaModel_add (Stream ''stdout'' ''b'')
                \<lparr>outputs = [Stream ''stdout'' ''a''], clearNext = False\<rparr>) = [Stream ''stdout'' ''ab'']"
    by (simp add: add_same_stream)
  have other: "outputs (OutputAreaModel_add (Stream ''stderr'' ''b'')
                \<lparr>outputs = [Stream ''stdout'' ''a''], clearNext = False\<rparr>)
                 = [Stream ''stdout'' ''a'', Stream ''stderr'' ''b'']"
    by (simp add: OutputAreaModel_add_def ol_get_def norm_index_def ol_add_def)
  show ?thesis using general len first same other by simp
qed

theorem add_consolidates_streams_witness:
  "outputs (OutputAreaModel_add (Stream ''stdout'' ''lo'')
      \<lparr>outputs = [DisplayData [], Stream ''stdout'' ''hel''], clearNext = False\<rparr>)
    = [DisplayData [], Stream ''stdout'' ''hello'']"
  using add_consolidates_streams [of "\<lparr>outputs = [DisplayData [], Stream ''stdout'' ''hel''], clearNext = False\<rparr>"
      "''stdout''" "''hel''" "''lo''"]
  by simp

text \<open>
  The claim as stated, for every output area, fails where a deferred clear is pending:
  the list is wiped first, so the old text is not carried over.
\<close>

theorem add_consolidates_streams_counterexample:
  "last (outputs \<lparr>outputs = [Stream ''stdout'' ''a''], clearNext = True\<rparr>) = Stream ''stdout'' ''a''
   \<and> outputs (OutputAreaModel_add (Stream ''stdout'' ''b'')
        \<lparr>outputs = [Stream ''stdout'' ''a''], clearNext = True\<rparr>) = [Stream ''stdout'' ''b'']
   \<and> outputs (OutputAreaModel_add (Stream ''stdout'' ''b'')
        \<lparr>outputs = [Stream ''stdout'' ''a''], clearNext = True\<rparr>) \<noteq> [Stream ''stdout'' ''ab'']"
  by (simp add: OutputAreaModel_add_def OutputAreaModel_clear_def ol_clear_def ol_get_def
        norm_index_def ol_add_def)

text \<open>
  C2 (as amended). \<open>clear\<close> with \<open>wait = true\<close> leaves the list of outputs as it is, and the
  next \<open>add\<close> of an output \<open>X\<close> leaves exactly \<open>[X]\<close> when the kind of \<open>X\<close> is one of the
  four known kinds, and the empty list when it is not; \<open>clear\<close> with \<open>wait = false\<close>
  empties the list at once.
\<close>

theorem clear_wait_then_add:
  "outputs (OutputAreaModel_clear True m) = outputs m
   \<and> outputs (OutputAreaModel_add X (OutputAreaModel_clear True m))
       = (case X of OtherOutput _ \<Rightarrow> [] | _ \<Rightarrow> [X])
   \<and> clearNext (OutputAreaModel_add X (OutputAreaModel_clear True m)) = False
   \<and> outputs (OutputAreaModel_clear False m) = []"
  by (cases X)
     (simp_all add: OutputAreaModel_add_def OutputAreaModel_clear_def ol_clear_def ol_get_def
        norm_index_def ol_add_def)

text \<open>
  The claim as stated, that the list then contains only \<open>X\<close>, fails for an output of
  another kind, which is dropped after the wipe.
\<close>

theorem clear_wait_then_add_counterexample:
  "outputs (OutputAreaModel_add (OtherOutput ''status'')
      (OutputAreaModel_clear True \<lparr>outputs = [Stream ''stdout'' ''a''], clearNext = False\<rparr>)) = []
   \<and> outputs (OutputAreaModel_add (OtherOutput ''status'')
      (OutputAreaModel_clear True \<lparr>outputs = [Stream ''stdout'' ''a''], clearNext = False\<rparr>))
     \<noteq> [OtherOutput ''status'']"
  by (simp add: OutputAreaModel_add_def OutputAreaModel_clear_def ol_clear_def ol_get_def
        norm_index_def ol_add_def)

section \<open>The active cell\<close>

lemma length_set_activeCellIndex: "length (cells (set_activeCellIndex v nb)) = length (cells nb)"
  by (simp add: set_activeCellIndex_def Let_def)

lemma activeCellIndex_set:
  "activeCellIndex (set_activeCellIndex v nb) = Some (min (max v 0) (int (length (cells nb)) - 1))"
  by (simp add: set_activeCellIndex_def Let_def)

lemma active_flags_set:
  "map active (cells (set_activeCellIndex v nb))
     = map (\<lambda>i. min (max v 0) (int (length (cells nb)) - 1) = int i) [0..<length (cells nb)]"
  by (rule nth_equalityI) (simp_all add: set_activeCellIndex_def Let_def nth_enumerate_eq)

lemma filter_index_none: "int n \<le> k \<Longrightarrow> filter (\<lambda>i. k = int i) [0..<n] = []"
  by (induction n) auto

lemma filter_index_one: "0 \<le> k \<Longrightarrow> k < int n \<Longrightarrow> length (filter (\<lambda>i. k = int i) [0..<n]) = 1"
proof (induction n)
  case 0
  then show ?case by simp
next
  case (Suc n)
  show ?case
  proof (cases "k = int n")
    case True
    then show ?thesis by (simp add: filter_index_none)
  next
    case False
    with Suc show ?thesis by simp
  qed
qed

lemma count_active:
  assumes "map active xs = map P [0..<length xs]"
  shows "length (filter active xs) = length (filter P [0..<length xs])"
proof -
  have "length (filter active xs) = length (filter id (map active xs))"
    by (simp add: filter_map comp_def)
  also have "\<dots> = length (filter id (map P [0..<length xs]))"
    by (simp add: assms)
  also have "\<dots> = length (filter P [0..<length xs])"
    by (simp add: filter_map comp_def)
  finally show ?thesis .
qed

lemma set_activeCellIndex_one_active:
  assumes "cells nb \<noteq> []"
  shows "one_active_at_index (set_activeCellIndex v nb)"
proof -
  let ?k = "min (max v 0) (int (length (cells nb)) - 1)"
  let ?nb = "set_activeCellIndex v nb"
  have n: "0 < length (cells nb)" using assms by simp
  have k0: "0 \<le> ?k" and k1: "?k < int (length (cells nb))" using n by auto
  have flags: "map active (cells ?nb) = map (\<lambda>i. ?k = int i) [0..<length (cells ?nb)]"
    by (simp add: active_flags_set length_set_activeCellIndex)
  have "length (filter active (cells ?nb)) = length (filter (\<lambda>i. ?k = int i) [0..<length (cells ?nb)])"
    by (rule count_active) (rule flags)
  then have one: "length (filter active (cells ?nb)) = 1"
    using k0 k1 by (simp add: filter_index_one length_set_activeCellIndex)
  show ?thesis
    unfolding one_active_at_index_def
    using k0 k1 flags one by (simp add: activeCellIndex_set length_set_activeCellIndex)
qed

lemma cells_add_eq:
  "cells_add c nb = set_activeCellIndex (int (length (cells nb))) (nb\<lparr>cells := cells nb @ [c]\<rparr>)"
  by (simp add: cells_add_def ol_add_def)

lemma length_cells_add: "length (cells (cells_add c nb)) = Suc (length (cells nb))"
  by (simp add: cells_add_eq length_set_activeCellIndex)

lemma cells_add_one_active: "one_active_at_index (cells_add c nb)"
  by (simp add: cells_add_eq set_activeCellIndex_one_active)

lemma cells_insert_ok:
  assumes "0 \<le> norm_index (cells nb) i" "norm_index (cells nb) i \<le> int (length (cells nb))"
  shows "\<exists>nb'. cells_insert i c nb = Inr nb' \<and> one_active_at_index nb'"
  using assms
  by (simp add: cells_insert_def ol_insert_def Let_def set_activeCellIndex_one_active)

lemma cells_removeAt_ok:
  assumes "0 \<le> norm_index (cells nb) i" "norm_index (cells nb) i < int (length (cells nb))"
    and "2 \<le> length (cells nb)"
  shows "\<exists>nb'. cells_removeAt i nb = Inr nb' \<and> one_active_at_index nb'"
proof -
  let ?j = "norm_index (cells nb) i"
  let ?xs = "take (nat ?j) (cells nb) @ drop (Suc (nat ?j)) (cells nb)"
  have len: "Suc (length ?xs) = length (cells nb)" using assms by auto
  then have ne: "?xs \<noteq> []" using assms(3) by auto
  show ?thesis
    using assms(1,2) ne
    by (simp add: cells_removeAt_def ol_removeAt_def Let_def set_activeCellIndex_one_active)
qed

lemma length_example_notebook: "length (cells example_notebook) = 2"
  by (simp add: example_notebook_def length_cells_add new_NotebookModel_def)

text \<open>
  C4. In a notebook with at least one cell, after the setter of \<open>activeCellIndex\<close> was
  called with any integer, after a cell was added with \<open>add\<close> or \<open>insert\<close>, and after a
  cell was removed with \<open>removeAt\<close> from a notebook of two or more cells, exactly one
  cell has \<open>active = true\<close> and it is the cell at \<open>activeCellIndex\<close>. The setter stores
  \<open>min (max v 0) (length - 1)\<close>, which lies in \<open>[0, length - 1]\<close> when the list is not
  empty, and writes \<open>active = (index = i)\<close> to the cell at every position \<open>i\<close>.
\<close>

theorem activeCellIndex_invariant:
  "activeCellIndex (set_activeCellIndex v nb) = Some (min (max v 0) (int (length (cells nb)) - 1))
   \<and> map active (cells (set_activeCellIndex v nb))
       = map (\<lambda>i. min (max v 0) (int (length (cells nb)) - 1) = int i) [0..<length (cells nb)]
   \<and> (cells nb \<noteq> [] \<longrightarrow>
        0 \<le> min (max v 0) (int (length (cells nb)) - 1)
        \<and> min (max v 0) (int (length (cells nb)) - 1) \<le> int (length (cells nb)) - 1
        \<and> one_active_at_index (set_activeCellIndex v nb))
   \<and> one_active_at_index (cells_add c nb)
   \<and> (0 \<le> norm_index (cells nb) i \<and> norm_index (cells nb) i \<le> int (length (cells nb)) \<longrightarrow>
        (\<exists>nb'. cells_insert i c nb = Inr nb' \<and> one_active_at_index nb'))
   \<and> (0 \<le> norm_index (cells nb) i \<and> norm_index (cells nb) i < int (length (cells nb))
        \<and> 2 \<le> length (cells nb) \<longrightarrow>
        (\<exists>nb'. cells_removeAt i nb = Inr nb' \<and> one_active_at_index nb'))"
proof -
  have range: "cells nb \<noteq> [] \<longrightarrow>
        0 \<le> min (max v 0) (int (length (cells nb)) - 1)
        \<and> min (max v 0) (int (length (cells nb)) - 1) \<le> int (length (cells nb)) - 1"
    by (cases "cells nb") auto
  show ?thesis
    using range activeCellIndex_set [of v nb] active_flags_set [of v nb]
      set_activeCellIndex_one_active [of nb v] cells_add_one_active [of c nb]
      cells_insert_ok [of nb i c] cells_removeAt_ok [of nb i]
    by blast
qed

theorem activeCellIndex_invariant_witness:
  "cells example_notebook \<noteq> []
   \<and> activeCellIndex (set_activeCellIndex 5 example_notebook) = Some 1
   \<and> one_active_at_index (set_activeCellIndex 5 example_notebook)
   \<and> (\<exists>nb'. cells_insert 1 (createMarkdownCell None example_notebook) example_notebook = Inr nb'
            \<and> one_active_at_index nb')
   \<and> (\<exists>nb'. cells_removeAt (- 1) example_notebook = Inr nb' \<and> one_active_at_index nb')"
proof -
  have ne: "cells example_notebook \<noteq> []"
    using length_example_notebook by auto
  have one: "norm_index (cells example_notebook) 1 = 1"
    by (simp add: norm_index_def)
  have last: "norm_index (cells example_notebook) (- 1) = 1"
    by (simp add: norm_index_def length_example_notebook)
  show ?thesis
    using ne activeCellIndex_invariant [of 5 example_notebook "createMarkdownCell None example_notebook" 1]
      activeCellIndex_invariant [of 5 example_notebook "createMarkdownCell None example_notebook" "- 1"]
    by (simp add: one last length_example_notebook)
qed

section \<open>The read-only cascade\<close>

lemma cellReadOnly_set: "cellReadOnly (set_cellReadOnly v c) = v"
  by (simp add: cellReadOnly_def set_cellReadOnly_def)

lemma cellReadOnly_createCodeCell: "cellReadOnly (createCodeCell src nb) = readOnly nb"
  by (cases src)
     (simp_all add: createCodeCell_def Let_def cellReadOnly_def copy_common_def set_cellText_def
        new_CellModel_def createInput_def createEditor_def)

lemma cellReadOnly_createMarkdownCell: "cellReadOnly (createMarkdownCell src nb) = readOnly nb"
  by (cases src)
     (simp_all add: createMarkdownCell_def Let_def cellReadOnly_def copy_common_def set_cellText_def
        new_CellModel_def createInput_def createEditor_def)

lemma cellReadOnly_createRawCell: "cellReadOnly (createRawCell src nb) = readOnly nb"
  by (cases src)
     (simp_all add: createRawCell_def Let_def cellReadOnly_def copy_common_def set_cellText_def
        new_CellModel_def createInput_def createEditor_def)

text \<open>
  C10. Setting \<open>readOnly = true\<close> on a notebook sets the property and makes every cell of
  the list read-only; and a cell from any of the three factories, with or without a
  source cell, has the read-only state that the notebook has when the factory is called,
  so every cell created while the notebook is read-only is read-only.
\<close>

theorem readOnly_cascade:
  "readOnly (set_readOnly True nb)
   \<and> list_all cellReadOnly (cells (set_readOnly True nb))
   \<and> length (cells (set_readOnly True nb)) = length (cells nb)
   \<and> cellReadOnly (createCodeCell src (set_readOnly True nb))
   \<and> cellReadOnly (createMarkdownCell src (set_readOnly True nb))
   \<and> cellReadOnly (createRawCell src (set_readOnly True nb))
   \<and> cellReadOnly (createCodeCell src nb1) = readOnly nb1
   \<and> cellReadOnly (createMarkdownCell src nb1) = readOnly nb1
   \<and> cellReadOnly (createRawCell src nb1) = readOnly nb1"
proof -
  have ro: "readOnly (set_readOnly True nb)"
    by (simp add: set_readOnly_def)
  have all: "list_all cellReadOnly (cells (set_readOnly True nb))"
    by (simp add: set_readOnly_def list_all_iff cellReadOnly_set)
  have len: "length (cells (set_readOnly True nb)) = length (cells nb)"
    by (simp add: set_readOnly_def)
  show ?thesis
    using ro all len
    by (simp add: cellReadOnly_createCodeCell cellReadOnly_createMarkdownCell cellReadOnly_createRawCell)
qed

section \<open>Running the active cell\<close>

lemma trim_blank:
  assumes "list_all isWhiteSpace s"
  shows "trim s = []"
proof -
  have blank: "dropWhile isWhiteSpace s = []"
    using assms by (simp add: list_all_iff)
  show ?thesis
    unfolding trim_def blank by simp
qed

lemma executeCell_cells: "cells (snd (executeCell cell nb)) = cells nb"
  by (simp add: executeCell_def Let_def split: option.splits)

lemma executeCell_frame:
  "readOnly (snd (executeCell cell nb)) = readOnly nb
   \<and> defaultMimetype (snd (executeCell cell nb)) = defaultMimetype nb
   \<and> activeCellIndex (snd (executeCell cell nb)) = activeCellIndex nb"
  by (simp add: executeCell_def Let_def split: option.splits)

lemma executeCell_cellType: "cellType (fst (executeCell cell nb)) = cellType cell"
  by (simp add: executeCell_def Let_def set_prompt_def split: option.splits)

lemma executeCell_cellText: "cellText (fst (executeCell cell nb)) = cellText cell"
  by (simp add: executeCell_def Let_def set_prompt_def cellText_def split: option.splits)

text \<open>
  C9. In a notebook that is not read-only, \<open>executeCell\<close> on a cell whose text is empty
  or consists of white space only sets the prompt of the cell to \<open>In [ ]:\<close> and does
  nothing else: the notebook, with its session and the requests sent to it, is as
  before, and so is the output area of the cell.
\<close>

theorem executeCell_blank:
  assumes "\<not> readOnly nb" and "list_all isWhiteSpace (cellText cell)"
  shows "executeCell cell nb = (set_prompt ''In [ ]:'' cell, nb)
       \<and> prompt (cellInput (fst (executeCell cell nb))) = ''In [ ]:''
       \<and> cellOutput (fst (executeCell cell nb)) = cellOutput cell
       \<and> session (snd (executeCell cell nb)) = session nb"
  using assms by (simp add: executeCell_def trim_blank set_prompt_def)

theorem executeCell_blank_witness:
  "executeCell (set_cellText [CHR '' '', CHR 0x09, CHR 0x0A] (createCodeCell None new_NotebookModel))
     (new_NotebookModel\<lparr>session := Some \<lparr>isDisposed = False, notebookPath = ''nb.ipynb'',
        kernelName = ''python'', kernelSpecDisplayName = None, kernelLanguageInfo = None,
        executeRequests = []\<rparr>\<rparr>)
   = (set_prompt ''In [ ]:'' (set_cellText [CHR '' '', CHR 0x09, CHR 0x0A] (createCodeCell None new_NotebookModel)),
      new_NotebookModel\<lparr>session := Some \<lparr>isDisposed = False, notebookPath = ''nb.ipynb'',
        kernelName = ''python'', kernelSpecDisplayName = None, kernelLanguageInfo = None,
        executeRequests = []\<rparr>\<rparr>)"
proof -
  have ws: "list_all isWhiteSpace
      (cellText (set_cellText [CHR '' '', CHR 0x09, CHR 0x0A] (createCodeCell None new_NotebookModel)))"
    by (simp add: cellText_def set_cellText_def isWhiteSpace_def)
  have ro: "\<not> readOnly (new_NotebookModel\<lparr>session := Some \<lparr>isDisposed = False, notebookPath = ''nb.ipynb'',
        kernelName = ''python'', kernelSpecDisplayName = None, kernelLanguageInfo = None,
        executeRequests = []\<rparr>\<rparr>)"
    by (simp add: new_NotebookModel_def)
  show ?thesis
    using executeCell_blank [OF ro ws] by simp
qed

lemma length_update_cell: "length (cells (update_cell i c nb)) = length (cells nb)"
  by (simp add: update_cell_def)

lemma update_cell_frame:
  "readOnly (update_cell i c nb) = readOnly nb
   \<and> defaultMimetype (update_cell i c nb) = defaultMimetype nb
   \<and> activeCellIndex (update_cell i c nb) = activeCellIndex nb"
  by (simp add: update_cell_def)

lemma run_dispatch_length: "length (cells (run_dispatch idx cell nb)) = length (cells nb)"
  using executeCell_cells [of cell nb]
  by (cases "executeCell cell nb") (simp add: run_dispatch_def length_update_cell)

lemma run_dispatch_frame:
  "readOnly (run_dispatch idx cell nb) = readOnly nb
   \<and> defaultMimetype (run_dispatch idx cell nb) = defaultMimetype nb
   \<and> activeCellIndex (run_dispatch idx cell nb) = activeCellIndex nb"
  using executeCell_frame [of cell nb]
  by (cases "executeCell cell nb") (simp add: run_dispatch_def update_cell_frame)

lemma createCodeCell_None:
  "createCodeCell None nb =
     (new_CellModel Code (createInput (createEditor (Some (defaultMimetype nb)) (readOnly nb)))
        createOutputArea)\<lparr>trusted := True\<rparr>"
  by (simp add: createCodeCell_def)

lemma createCodeCell_None_cong:
  "readOnly nb1 = readOnly nb \<Longrightarrow> defaultMimetype nb1 = defaultMimetype nb
     \<Longrightarrow> createCodeCell None nb1 = createCodeCell None nb"
  by (simp add: createCodeCell_None)

lemma cells_cells_add:
  "cells (cells_add c nb)
     = map (\<lambda>x. x\<lparr>active := False\<rparr>) (cells nb) @ [c\<lparr>active := True\<rparr>]"
proof -
  let ?n = "length (cells nb)"
  have k: "min (max (int ?n) 0) (int (length (cells nb @ [c])) - 1) = int ?n"
    by simp
  have "map (\<lambda>(i, x). x\<lparr>active := (int ?n = int i)\<rparr>) (enumerate 0 (cells nb @ [c]))
          = map (\<lambda>x. x\<lparr>active := False\<rparr>) (cells nb) @ [c\<lparr>active := True\<rparr>]"
    by (rule nth_equalityI) (auto simp add: nth_enumerate_eq nth_append)
  then show ?thesis
    by (simp add: cells_add_eq set_activeCellIndex_def Let_def)
qed

lemma one_active_at_index_mode: "one_active_at_index (nb\<lparr>mode := m\<rparr>) = one_active_at_index nb"
  by (simp add: one_active_at_index_def split: option.splits)

lemma cellText_active: "cellText (c\<lparr>active := b\<rparr>) = cellText c"
  by (simp add: cellText_def)

lemma map_update_same: "j < length xs \<Longrightarrow> f c = f (xs ! j) \<Longrightarrow> map f (xs[j := c]) = map f xs"
  by (rule nth_equalityI) (simp_all add: nth_list_update)

lemma ol_get_SomeD:
  assumes "ol_get xs i = Some x"
  shows "nat (norm_index xs i) < length xs \<and> x = xs ! nat (norm_index xs i)"
  using assms by (auto simp add: ol_get_def Let_def split: if_splits)

lemma run_dispatch_keeps_cells:
  assumes "ol_get (cells nb) idx = Some cell"
  shows "map cellType (cells (run_dispatch idx cell nb)) = map cellType (cells nb)
       \<and> map cellText (cells (run_dispatch idx cell nb)) = map cellText (cells nb)"
proof -
  from ol_get_SomeD [OF assms] have j: "nat (norm_index (cells nb) idx) < length (cells nb)"
    and c: "cell = cells nb ! nat (norm_index (cells nb) idx)" by simp_all
  have upd: "map cellType (cells (update_cell idx c' nb')) = map cellType (cells nb)
           \<and> map cellText (cells (update_cell idx c' nb')) = map cellText (cells nb)"
    if "cells nb' = cells nb" "cellType c' = cellType cell" "cellText c' = cellText cell" for c' nb'
    using that j c by (simp add: update_cell_def map_update_same)
  show ?thesis
  proof (cases "executeCell cell nb")
    case (Pair c' nb')
    have e: "cells nb' = cells nb" "cellType c' = cellType cell" "cellText c' = cellText cell"
      using executeCell_cells [of cell nb] executeCell_cellType [of cell nb]
        executeCell_cellText [of cell nb] Pair by simp_all
    show ?thesis
      unfolding run_dispatch_def Pair
      using upd [OF e] upd [of nb "cell\<lparr>trusted := True, rendered := True\<rparr>"]
        upd [of nb "cell\<lparr>trusted := True\<rparr>"]
      by (simp add: cellText_def)
  qed
qed

lemma runActiveCell_at_last:
  assumes "\<not> readOnly nb" and "cells nb \<noteq> []"
    and "activeCellIndex nb = Some (int (length (cells nb)) - 1)"
  shows "\<exists>nb1. length (cells nb1) = length (cells nb)
            \<and> map cellType (cells nb1) = map cellType (cells nb)
            \<and> map cellText (cells nb1) = map cellText (cells nb)
            \<and> runActiveCell nb = (cells_add (createCodeCell None nb) nb1)\<lparr>mode := Some Edit\<rparr>"
proof -
  let ?idx = "int (length (cells nb)) - 1"
  let ?nb1 = "run_dispatch ?idx (last (cells nb)) nb"
  have get: "ol_get (cells nb) ?idx = Some (last (cells nb))"
    using assms(2) by (cases "cells nb" rule: rev_cases) (simp_all add: ol_get_def norm_index_def)
  then have run: "runActiveCell nb = (cells_add (createCodeCell None ?nb1) ?nb1)\<lparr>mode := Some Edit\<rparr>"
    using assms(1,3) by (simp add: runActiveCell_def Let_def run_dispatch_frame run_dispatch_length)
  have "createCodeCell None ?nb1 = createCodeCell None nb"
    by (rule createCodeCell_None_cong) (simp_all add: run_dispatch_frame)
  with run have "runActiveCell nb = (cells_add (createCodeCell None nb) ?nb1)\<lparr>mode := Some Edit\<rparr>"
    by simp
  then show ?thesis
    using run_dispatch_length [of ?idx "last (cells nb)" nb] run_dispatch_keeps_cells [OF get]
    by blast
qed

lemma runActiveCell_not_last:
  assumes "\<not> readOnly nb" and "activeCellIndex nb = Some i" and "0 \<le> i"
    and "i < int (length (cells nb)) - 1"
  shows "activeCellIndex (runActiveCell nb) = Some (i + 1)
       \<and> length (cells (runActiveCell nb)) = length (cells nb)"
proof -
  have "ol_get (cells nb) i = Some (cells nb ! nat i)"
    using assms(3,4) by (simp add: ol_get_def norm_index_def)
  then have run: "runActiveCell nb = set_activeCellIndex (i + 1) (run_dispatch i (cells nb ! nat i) nb)"
    using assms by (simp add: runActiveCell_def Let_def run_dispatch_frame run_dispatch_length)
  show ?thesis
    using assms(3,4)
    by (simp add: run activeCellIndex_set length_set_activeCellIndex run_dispatch_length)
qed

lemma runActiveCell_raw_notebook:
  "length (cells (runActiveCell raw_notebook)) = 2
   \<and> map cellType (cells (runActiveCell raw_notebook)) = [Raw, Code]
   \<and> mode (runActiveCell raw_notebook) = Some Edit
   \<and> activeCellIndex (runActiveCell raw_notebook) = Some 1
   \<and> map active (cells (runActiveCell raw_notebook)) = [False, True]"
  by (simp add: raw_notebook_def runActiveCell_def run_dispatch_def update_cell_def cells_add_eq
      set_activeCellIndex_def new_NotebookModel_def createRawCell_def createCodeCell_def
      new_CellModel_def createInput_def createEditor_def createOutputArea_def
      new_OutputAreaModel_def ol_get_def norm_index_def Let_def enumerate_eq_zip)

text \<open>
  C5. In a notebook that is not read-only whose active cell is the last cell,
  \<open>runActiveCell\<close> appends exactly one cell, the new code cell of \<open>createCodeCell\<close>, at the
  end of the list (the cells before it keep their kinds and texts), sets the mode to
  \<open>edit\<close>, and makes the new cell the active one. For
  the notebook of one raw cell the result has two cells, a raw cell and a code cell, the
  mode \<open>edit\<close> and the active index \<open>1\<close>. Where the active cell is not the last cell, the
  active index goes up by one and no cell is added.
\<close>

theorem runActiveCell_appends_on_last:
  "(\<not> readOnly nb \<and> cells nb \<noteq> [] \<and> activeCellIndex nb = Some (int (length (cells nb)) - 1) \<longrightarrow>
      length (cells (runActiveCell nb)) = Suc (length (cells nb))
      \<and> map cellType (butlast (cells (runActiveCell nb))) = map cellType (cells nb)
      \<and> map cellText (butlast (cells (runActiveCell nb))) = map cellText (cells nb)
      \<and> last (cells (runActiveCell nb)) = (createCodeCell None nb)\<lparr>active := True\<rparr>
      \<and> cellType (last (cells (runActiveCell nb))) = Code
      \<and> mode (runActiveCell nb) = Some Edit
      \<and> activeCellIndex (runActiveCell nb) = Some (int (length (cells nb)))
      \<and> one_active_at_index (runActiveCell nb))
   \<and> length (cells (runActiveCell raw_notebook)) = 2
   \<and> map cellType (cells (runActiveCell raw_notebook)) = [Raw, Code]
   \<and> mode (runActiveCell raw_notebook) = Some Edit
   \<and> activeCellIndex (runActiveCell raw_notebook) = Some 1
   \<and> (\<not> readOnly nb \<and> activeCellIndex nb = Some i \<and> 0 \<le> i \<and> i < int (length (cells nb)) - 1 \<longrightarrow>
        activeCellIndex (runActiveCell nb) = Some (i + 1)
        \<and> length (cells (runActiveCell nb)) = length (cells nb))"
proof -
  have last_case: "length (cells (runActiveCell nb)) = Suc (length (cells nb))
      \<and> map cellType (butlast (cells (runActiveCell nb))) = map cellType (cells nb)
      \<and> map cellText (butlast (cells (runActiveCell nb))) = map cellText (cells nb)
      \<and> last (cells (runActiveCell nb)) = (createCodeCell None nb)\<lparr>active := True\<rparr>
      \<and> cellType (last (cells (runActiveCell nb))) = Code
      \<and> mode (runActiveCell nb) = Some Edit
      \<and> activeCellIndex (runActiveCell nb) = Some (int (length (cells nb)))
      \<and> one_active_at_index (runActiveCell nb)"
    if h: "\<not> readOnly nb" "cells nb \<noteq> []" "activeCellIndex nb = Some (int (length (cells nb)) - 1)"
  proof -
    from runActiveCell_at_last [OF h] obtain nb1 where
      len: "length (cells nb1) = length (cells nb)" and
      kinds: "map cellType (cells nb1) = map cellType (cells nb)" and
      texts: "map cellText (cells nb1) = map cellText (cells nb)" and
      run: "runActiveCell nb = (cells_add (createCodeCell None nb) nb1)\<lparr>mode := Some Edit\<rparr>"
      by blast
    have cs: "cells (runActiveCell nb) = cells (cells_add (createCodeCell None nb) nb1)"
      by (simp add: run)
    have l: "length (cells (runActiveCell nb)) = Suc (length (cells nb))"
      by (simp add: cs length_cells_add len)
    have bl: "butlast (cells (runActiveCell nb)) = map (\<lambda>x. x\<lparr>active := False\<rparr>) (cells nb1)"
      by (simp add: cs cells_cells_add butlast_append)
    have ks: "map cellType (butlast (cells (runActiveCell nb))) = map cellType (cells nb)"
      using kinds by (simp add: bl comp_def)
    have ts: "map cellText (butlast (cells (runActiveCell nb))) = map cellText (cells nb)"
      using texts by (simp add: bl comp_def cellText_active)
    have la: "last (cells (runActiveCell nb)) = (createCodeCell None nb)\<lparr>active := True\<rparr>"
      by (simp add: cs cells_cells_add)
    have ty: "cellType (last (cells (runActiveCell nb))) = Code"
      by (simp add: la createCodeCell_None new_CellModel_def)
    have md: "mode (runActiveCell nb) = Some Edit"
      by (simp add: run)
    have ai: "activeCellIndex (runActiveCell nb) = Some (int (length (cells nb)))"
      by (simp add: run cells_add_eq activeCellIndex_set len)
    have "one_active_at_index (cells_add (createCodeCell None nb) nb1)"
      by (rule cells_add_one_active)
    then have oa: "one_active_at_index (runActiveCell nb)"
      by (simp add: run one_active_at_index_mode)
    show ?thesis using l ks ts la ty md ai oa by simp
  qed
  have not_last: "\<not> readOnly nb \<and> activeCellIndex nb = Some i \<and> 0 \<le> i \<and> i < int (length (cells nb)) - 1 \<longrightarrow>
        activeCellIndex (runActiveCell nb) = Some (i + 1)
        \<and> length (cells (runActiveCell nb)) = length (cells nb)"
    using runActiveCell_not_last [of nb i] by blast
  show ?thesis
    using last_case runActiveCell_raw_notebook not_last by blast
qed

lemma raw_notebook_facts:
  "\<not> readOnly raw_notebook \<and> cells raw_notebook \<noteq> []
   \<and> activeCellIndex raw_notebook = Some (int (length (cells raw_notebook)) - 1)"
  by (simp add: raw_notebook_def cells_add_eq set_activeCellIndex_def new_NotebookModel_def Let_def)

lemma example_notebook_facts:
  "\<not> readOnly (set_activeCellIndex 0 example_notebook)
   \<and> activeCellIndex (set_activeCellIndex 0 example_notebook) = Some 0
   \<and> length (cells (set_activeCellIndex 0 example_notebook)) = 2"
  by (simp add: activeCellIndex_set length_set_activeCellIndex length_example_notebook)
     (simp add: set_activeCellIndex_def example_notebook_def cells_add_eq new_NotebookModel_def Let_def)

theorem runActiveCell_appends_on_last_witness:
  "length (cells (runActiveCell raw_notebook)) = Suc (length (cells raw_notebook))
   \<and> last (cells (runActiveCell raw_notebook)) = (createCodeCell None raw_notebook)\<lparr>active := True\<rparr>
   \<and> one_active_at_index (runActiveCell raw_notebook)
   \<and> activeCellIndex (runActiveCell (set_activeCellIndex 0 example_notebook)) = Some (0 + 1)
   \<and> length (cells (runActiveCell (set_activeCellIndex 0 example_notebook)))
       = length (cells (set_activeCellIndex 0 example_notebook))"
proof -
  have at_last: "\<not> readOnly raw_notebook \<and> cells raw_notebook \<noteq> []
      \<and> activeCellIndex raw_notebook = Some (int (length (cells raw_notebook)) - 1)"
    by (rule raw_notebook_facts)
  have before_last: "\<not> readOnly (set_activeCellIndex 0 example_notebook)
      \<and> activeCellIndex (set_activeCellIndex 0 example_notebook) = Some 0
      \<and> (0::int) \<le> 0
      \<and> 0 < int (length (cells (set_activeCellIndex 0 example_notebook))) - 1"
    using example_notebook_facts by simp
  show ?thesis
    using at_last before_last
      runActiveCell_appends_on_last [of raw_notebook 0]
      runActiveCell_appends_on_last [of "set_activeCellIndex 0 example_notebook" 0]
    by blast
qed

section \<open>The active cell after loading a document\<close>

lemma deserializeCell_total:
  "\<exists>cell'. deserializeCell c
            (if isMarkdownCell c then createMarkdownCell None model
             else if isCodeCell c then createCodeCell None model
             else createRawCell None model) = Inr cell'"
  by (cases c)
     (simp_all add: deserializeCell_def Let_def createMarkdownCell_def createCodeCell_def
        createRawCell_def new_CellModel_def set_cellText_def)

lemma activeCellIndex_cells_add:
  "activeCellIndex (cells_add c nb) = Some (int (length (cells (cells_add c nb))) - 1)"
  by (simp add: cells_add_eq activeCellIndex_set length_set_activeCellIndex)

lemma deserialize_cells_active:
  "\<exists>m. deserialize_cells cs model = Inr m
       \<and> length (cells m) = length (cells model) + length cs
       \<and> (cs \<noteq> [] \<longrightarrow> activeCellIndex m = Some (int (length (cells m)) - 1)
                       \<and> one_active_at_index m)"
proof (induction cs arbitrary: model)
  case Nil
  then show ?case by simp
next
  case (Cons c cs)
  let ?cell = "if isMarkdownCell c then createMarkdownCell None model
               else if isCodeCell c then createCodeCell None model
               else createRawCell None model"
  from deserializeCell_total [of c model] obtain cell' where
    d: "deserializeCell c ?cell = Inr cell'" by blast
  let ?model0 = "if cellText cell' \<noteq> cellText ?cell then model\<lparr>dirty := True\<rparr> else model"
  let ?model1 = "cells_add cell' ?model0"
  have len1: "length (cells ?model1) = Suc (length (cells model))"
    by (simp add: length_cells_add)
  have act1: "activeCellIndex ?model1 = Some (int (length (cells ?model1)) - 1)"
    by (rule activeCellIndex_cells_add)
  have one1: "one_active_at_index ?model1"
    by (rule cells_add_one_active)
  from Cons.IH [of ?model1] obtain m where
    m: "deserialize_cells cs ?model1 = Inr m"
       "length (cells m) = length (cells ?model1) + length cs"
       "cs \<noteq> [] \<longrightarrow> activeCellIndex m = Some (int (length (cells m)) - 1) \<and> one_active_at_index m"
    by blast
  have run: "deserialize_cells (c # cs) model = Inr m"
    using d m(1) by (simp add: Let_def)
  have len: "length (cells m) = length (cells model) + length (c # cs)"
    using m(2) len1 by simp
  have "activeCellIndex m = Some (int (length (cells m)) - 1) \<and> one_active_at_index m"
  proof (cases cs)
    case Nil
    then have "m = ?model1" using m(1) by simp
    then show ?thesis using act1 one1 by simp
  next
    case (Cons a list)
    then show ?thesis using m(3) by simp
  qed
  with run len show ?case by blast
qed

lemma one_active_at_index_other_fields:
  "one_active_at_index (nb\<lparr>selectedCellIndex := s\<rparr>) = one_active_at_index nb"
  "one_active_at_index (nb\<lparr>metadata := md\<rparr>) = one_active_at_index nb"
  by (simp_all add: one_active_at_index_def split: option.splits)

text \<open>
  After \<open>deserialize\<close> of a document with at least one cell the active cell is the last
  cell of the notebook, whatever the number of cells.
\<close>

lemma deserialize_activates_last:
  assumes "content_cells data \<noteq> []"
  shows "\<exists>m. deserialize data model = Inr m
            \<and> length (cells m) = length (content_cells data)
            \<and> activeCellIndex m = Some (int (length (content_cells data)) - 1)
            \<and> one_active_at_index m
            \<and> selectedCellIndex m = Some 0"
proof -
  have empty: "cells (cells_clear model) = []"
    by (simp add: cells_clear_def ol_clear_def)
  from deserialize_cells_active [of "content_cells data" "cells_clear model"] assms obtain m where
    m: "deserialize_cells (content_cells data) (cells_clear model) = Inr m"
       "length (cells m) = length (content_cells data)"
       "activeCellIndex m = Some (int (length (cells m)) - 1)" "one_active_at_index m"
    by (auto simp add: empty)
  have ne: "length (cells m) \<noteq> 0"
    using m(2) assms by simp
  have "deserialize data model = Inr (m\<lparr>selectedCellIndex := Some 0, metadata := content_metadata data\<rparr>)"
    using ne by (simp add: deserialize_def m(1))
  then show ?thesis
    using m(2,3,4) by (simp add: one_active_at_index_other_fields)
qed

text \<open>
  C7, at a document of two cells. \<open>deserialize\<close> writes \<open>0\<close> to the property
  \<open>selectedCellIndex\<close>, which the model does not have; the active index is the one that
  the last \<open>add\<close> of the loop has set, so after loading the two cells the active cell is
  the second cell and the first cell is not active.
\<close>

theorem deserialize_two_cells_active:
  "map_sum id (\<lambda>m. (activeCellIndex m, map active (cells m), selectedCellIndex m))
     (deserialize two_cell_document new_NotebookModel)
   = Inr (Some 1, [False, True], Some 0)"
  by (simp add: two_cell_document_def deserialize_def cells_clear_def ol_clear_def
      new_NotebookModel_def createMarkdownCell_def createCodeCell_def deserializeCell_def
      new_CellModel_def createInput_def createEditor_def createOutputArea_def
      new_OutputAreaModel_def cells_add_eq set_activeCellIndex_def Let_def
      set_cellText_def cellText_def enumerate_eq_zip)

section \<open>Saving\<close>

text \<open>
  With a session that is attached but disposed, \<open>save\<close> goes straight to the contents
  manager: the promise is fulfilled and \<open>dirty\<close> is cleared when the manager accepts, and
  it is rejected with \<open>dirty\<close> as it was when the manager refuses.
\<close>

lemma save_disposed_session:
  assumes "session nb = Some s" and "isDisposed s"
  shows "NotebookModel_save major minor manager nb =
           (if accepts manager (notebookPath s) (serialize major minor nb)
            then Inr (Fulfilled (nb\<lparr>dirty := False\<rparr>,
                      manager\<lparr>saved := saved manager @ [(notebookPath s, serialize major minor nb)]\<rparr>))
            else Inr (Rejected (nb, manager)))"
  using assms by (simp add: NotebookModel_save_def private_save_def)

text \<open>
  C8, at every notebook with no session. \<open>save\<close> calls \<open>_save\<close>, which reads
  \<open>this.session.notebookPath\<close>: with no session this is a \<open>TypeError\<close>, thrown before the
  contents manager is called. Nothing is persisted and \<open>dirty\<close> is not cleared, whatever
  the manager would have answered.
\<close>

theorem save_without_session:
  "NotebookModel_save major minor manager (nb\<lparr>session := None\<rparr>) = Inl TypeError"
  by (simp add: NotebookModel_save_def private_save_def)

section \<open>The notebook widget and the change events\<close>

lemma filter_fresh_id:
  "list_all (\<lambda>w. widgetId w < n) ws \<Longrightarrow> filter (\<lambda>x. widgetId x \<noteq> n) ws = ws"
  by (induction ws) auto

lemma filter_child_id:
  "distinct (map widgetId ws) \<Longrightarrow> w \<in> set ws
     \<Longrightarrow> Suc (length (filter (\<lambda>x. widgetId x \<noteq> widgetId w) ws)) = length ws"
proof (induction ws)
  case Nil
  then show ?case by simp
next
  case (Cons a ws)
  show ?case
  proof (cases "widgetId a = widgetId w")
    case True
    then have "\<forall>x\<in>set ws. widgetId x \<noteq> widgetId w"
      using Cons.prems(1) by (auto simp add: image_iff)
    then have "filter (\<lambda>x. widgetId x \<noteq> widgetId w) ws = ws"
      by (simp add: filter_id_conv)
    then show ?thesis using True by simp
  next
    case False
    then have "w \<in> set ws" using Cons.prems(2) by auto
    then show ?thesis using Cons False by simp
  qed
qed

lemma length_insertChild_new:
  assumes "list_all (\<lambda>x. widgetId x < widgetId w) (children st)"
  shows "length (children (insertChild i w st)) = Suc (length (children st))"
  using filter_fresh_id [OF assms] by (simp add: insertChild_def Let_def)

lemma length_insertChild_child:
  assumes "distinct (map widgetId (children st))" and "w \<in> set (children st)"
  shows "length (children (insertChild i w st)) = length (children st)"
  using filter_child_id [OF assms] by (simp add: insertChild_def Let_def)

lemma childAt_Some:
  "0 \<le> i \<Longrightarrow> i < int (length (children st)) \<Longrightarrow> childAt i st = Some (children st ! nat i)"
  by (simp add: childAt_def)

text \<open>
  The cases \<open>Add\<close>, \<open>Move\<close>, \<open>Remove\<close> and \<open>Set\<close> of the widget's handler, for an event at a
  position of the layout: the number of children follows the list of cells, \<open>Add\<close> and
  \<open>Set\<close> construct one widget, \<open>Remove\<close> and \<open>Set\<close> dispose of the widget at the position,
  and \<open>Move\<close> constructs and disposes of nothing.
\<close>

lemma onCellsChanged_add:
  assumes "widgets_ok st"
  shows "\<exists>st'. NotebookWidget_onCellsChanged (ListAdd i c) st = Inr st'
           \<and> length (children st') = Suc (length (children st))
           \<and> constructed st' = Suc (constructed st) \<and> disposed st' = disposed st"
proof -
  let ?w = "\<lparr>widgetId = constructed st, widgetModel = c\<rparr>"
  let ?st1 = "st\<lparr>constructed := Suc (constructed st)\<rparr>"
  have "list_all (\<lambda>x. widgetId x < widgetId ?w) (children ?st1)"
    using assms by (simp add: widgets_ok_def)
  then have "length (children (insertChild i ?w ?st1)) = Suc (length (children ?st1))"
    by (rule length_insertChild_new)
  then show ?thesis
    by (simp add: createCell_def) (simp add: insertChild_def Let_def)
qed

lemma onCellsChanged_move:
  assumes "widgets_ok st" and "0 \<le> i" and "i < int (length (children st))"
  shows "\<exists>st'. NotebookWidget_onCellsChanged (ListMove i k c) st = Inr st'
           \<and> length (children st') = length (children st)
           \<and> children st ! nat i \<in> set (children st')
           \<and> constructed st' = constructed st \<and> disposed st' = disposed st"
proof -
  let ?w = "children st ! nat i"
  have w: "?w \<in> set (children st)" using assms(2,3) by simp
  have d: "distinct (map widgetId (children st))" using assms(1) by (simp add: widgets_ok_def)
  have len: "length (children (insertChild k ?w st)) = length (children st)"
    using d w by (rule length_insertChild_child)
  have mem: "?w \<in> set (children (insertChild k ?w st))"
    by (simp add: insertChild_def Let_def)
  have frame: "constructed (insertChild k ?w st) = constructed st"
      "disposed (insertChild k ?w st) = disposed st"
    by (simp_all add: insertChild_def Let_def)
  have run: "NotebookWidget_onCellsChanged (ListMove i k c) st = Inr (insertChild k ?w st)"
    by (simp add: childAt_Some assms(2,3))
  show ?thesis
    using len mem frame run by blast
qed

lemma onCellsChanged_remove:
  assumes "widgets_ok st" and "0 \<le> i" and "i < int (length (children st))"
  shows "\<exists>st'. NotebookWidget_onCellsChanged (ListRemove i c) st = Inr st'
           \<and> Suc (length (children st')) = length (children st)
           \<and> constructed st' = constructed st
           \<and> disposed st' = widgetId (children st ! nat i) # disposed st"
proof -
  let ?w = "children st ! nat i"
  have w: "?w \<in> set (children st)" using assms(2,3) by simp
  have d: "distinct (map widgetId (children st))" using assms(1) by (simp add: widgets_ok_def)
  show ?thesis
    using filter_child_id [OF d w]
    by (simp add: childAt_Some assms(2,3) removeChild_def dispose_def)
qed

lemma onCellsChanged_set:
  assumes "widgets_ok st" and "0 \<le> i" and "i < int (length (children st))"
  shows "\<exists>st'. NotebookWidget_onCellsChanged (ListSet i old c) st = Inr st'
           \<and> length (children st') = length (children st)
           \<and> constructed st' = Suc (constructed st)
           \<and> disposed st' = widgetId (children st ! nat i) # disposed st"
proof -
  let ?w = "children st ! nat i"
  let ?st1 = "dispose ?w (removeChild ?w st)"
  let ?n = "\<lparr>widgetId = constructed st, widgetModel = c\<rparr>"
  have w: "?w \<in> set (children st)" using assms(2,3) by simp
  have d: "distinct (map widgetId (children st))" using assms(1) by (simp add: widgets_ok_def)
  have len1: "Suc (length (children ?st1)) = length (children st)"
    using filter_child_id [OF d w] by (simp add: removeChild_def dispose_def)
  have "list_all (\<lambda>x. widgetId x < constructed st) (children ?st1)"
    using assms(1) by (simp add: widgets_ok_def removeChild_def dispose_def list_all_iff)
  then have "list_all (\<lambda>x. widgetId x < widgetId ?n) (children (?st1\<lparr>constructed := Suc (constructed st)\<rparr>))"
    by simp
  then have "length (children (insertChild i ?n (?st1\<lparr>constructed := Suc (constructed st)\<rparr>)))
               = Suc (length (children (?st1\<lparr>constructed := Suc (constructed st)\<rparr>)))"
    by (rule length_insertChild_new)
  then have len: "length (children (insertChild i ?n (?st1\<lparr>constructed := Suc (constructed st)\<rparr>)))
               = length (children st)"
    using len1 by simp
  have c1: "constructed ?st1 = constructed st"
    by (simp add: removeChild_def dispose_def)
  show ?thesis
    using len
    by (simp add: childAt_Some assms(2,3) createCell_def c1)
       (simp add: insertChild_def Let_def removeChild_def dispose_def)
qed

text \<open>The \<open>Replace\<close> case on a layout that is in step with a list of one or more cells.\<close>

lemma replace_remove_loop_whole_list:
  "children st \<noteq> [] \<Longrightarrow> replace_remove_loop (length (children st)) st = Inl TypeError"
  by (cases "children st") (simp_all add: childAt_def)

text \<open>
  C3, at a \<open>Replace\<close> event. The widget of the notebook of two cells has two children.
  \<open>model.cells.clear()\<close> emits \<open>Replace\<close> with the two old cells: the loop of the handler
  starts at \<open>childAt(2)\<close>, which is \<open>undefined\<close>, and the handler ends in a \<open>TypeError\<close> with
  both children still in the layout of a notebook that has no cell left. For a \<open>Replace\<close>
  of the first cell alone the loop removes and disposes of the child at position \<open>1\<close>, the
  widget of the cell that was not replaced, keeps the widget of the replaced cell at
  position \<open>0\<close>, and appends the widget of the new cell at the end.
\<close>

theorem onCellsChanged_replace:
  "length (children (new_NotebookWidget example_notebook)) = length (cells example_notebook)
   \<and> map widgetId (children (new_NotebookWidget example_notebook)) = [0, 1]
   \<and> ol_clear (cells example_notebook) = ([], ListReplace 0 (cells example_notebook) [])
   \<and> NotebookWidget_onCellsChanged (ListReplace 0 (cells example_notebook) [])
        (new_NotebookWidget example_notebook) = Inl TypeError
   \<and> map_sum id (\<lambda>st. (map widgetId (children st), disposed st))
        (NotebookWidget_onCellsChanged
           (ListReplace 0 [hd (cells example_notebook)] [createMarkdownCell None example_notebook])
           (new_NotebookWidget example_notebook))
       = Inr ([0, 2], [1])"
  by (simp add: ol_clear_def new_NotebookWidget_def example_notebook_def cells_cells_add
      new_NotebookModel_def createCell_def addChild_def insertChild_def childAt_def Let_def
      removeChild_def dispose_def)

section \<open>Serialization round trip\<close>

lemma add_appends:
  assumes "\<not> clearNext a" and "known_kind x"
    and "outputs a = [] \<or> \<not> same_stream (last (outputs a)) x"
  shows "OutputAreaModel_add x a = a\<lparr>outputs := outputs a @ [x]\<rparr>"
proof (cases "outputs a = []")
  case True
  with assms(1,2) show ?thesis
    by (cases x) (simp_all add: add_to_empty)
next
  case False
  with assms(3) have ns: "\<not> same_stream (last (outputs a)) x" by simp
  have lo: "ol_get (outputs a) (- 1) = Some (last (outputs a))"
    using False by (rule ol_get_last)
  show ?thesis
    using assms(1,2) ns
    by (cases x; cases "last (outputs a)")
       (simp_all add: OutputAreaModel_add_def lo ol_add_def)
qed

lemma add_all_appends:
  assumes "\<not> clearNext a" and "list_all known_kind xs" and "merged_outputs xs"
    and "outputs a = [] \<or> xs = [] \<or> \<not> same_stream (last (outputs a)) (hd xs)"
  shows "foldl (\<lambda>area out. OutputAreaModel_add out area) a xs = a\<lparr>outputs := outputs a @ xs\<rparr>"
  using assms
proof (induction xs arbitrary: a)
  case Nil
  then show ?case by simp
next
  case (Cons x xs)
  have step: "OutputAreaModel_add x a = a\<lparr>outputs := outputs a @ [x]\<rparr>"
    using Cons.prems by (intro add_appends) auto
  have next_ok: "xs = [] \<or> \<not> same_stream x (hd xs)"
    using Cons.prems(3) by (cases xs) auto
  have merged: "merged_outputs xs"
    using Cons.prems(3) by (cases xs) auto
  have "foldl (\<lambda>area out. OutputAreaModel_add out area) (a\<lparr>outputs := outputs a @ [x]\<rparr>) xs
          = (a\<lparr>outputs := outputs a @ [x]\<rparr>)\<lparr>outputs := outputs (a\<lparr>outputs := outputs a @ [x]\<rparr>) @ xs\<rparr>"
    using Cons.prems(1,2) merged next_ok by (intro Cons.IH) auto
  then show ?case
    by (simp add: step)
qed

lemma foldl_snoc: "foldl (\<lambda>acc x. acc @ [f x]) acc0 xs = acc0 @ map f xs"
  by (induction xs arbitrary: acc0) auto

lemma serializeCell_active: "serializeCell (c\<lparr>active := b\<rparr>) = serializeCell c"
  by (simp add: serializeCell_def cellText_def)

lemma deserializeCell_plain:
  assumes "plain_cell c"
  shows "\<exists>cell'. deserializeCell c
            (if isMarkdownCell c then createMarkdownCell None model
             else if isCodeCell c then createCodeCell None model
             else createRawCell None model) = Inr cell'
          \<and> serializeCell cell' = c"
proof (cases c)
  case (ICodeCell src tg nm coll scr outs ec)
  with assms obtain s where src: "src = Single s"
    by (cases src) auto
  have outs: "list_all known_kind outs" "merged_outputs outs"
    using assms ICodeCell by auto
  have fold: "foldl (\<lambda>area out. OutputAreaModel_add out area) new_OutputAreaModel outs
                = new_OutputAreaModel\<lparr>outputs := outs\<rparr>"
    using add_all_appends [of new_OutputAreaModel outs] outs
    by (simp add: new_OutputAreaModel_def)
  show ?thesis
    by (simp add: ICodeCell src deserializeCell_def createCodeCell_def Let_def new_CellModel_def
        set_cellText_def createInput_def createEditor_def createOutputArea_def fold
        serializeCell_def cellText_def foldl_snoc [where f = "\<lambda>x. x", simplified])
next
  case (IMarkdownCell src tg nm)
  with assms obtain s where src: "src = Single s"
    by (cases src) auto
  show ?thesis
    by (simp add: IMarkdownCell src deserializeCell_def createMarkdownCell_def Let_def
        new_CellModel_def set_cellText_def createInput_def createEditor_def
        serializeCell_def cellText_def)
next
  case (IRawCell src tg nm fmt)
  with assms obtain s where src: "src = Single s"
    by (cases src) auto
  show ?thesis
    by (simp add: IRawCell src deserializeCell_def createRawCell_def Let_def
        new_CellModel_def set_cellText_def createInput_def createEditor_def
        serializeCell_def cellText_def)
qed

lemma map_serializeCell_cells_add:
  "map serializeCell (cells (cells_add c nb)) = map serializeCell (cells nb) @ [serializeCell c]"
  by (simp add: cells_cells_add serializeCell_active comp_def)

lemma deserialize_cells_plain:
  assumes "list_all plain_cell cs"
  shows "\<exists>m. deserialize_cells cs model = Inr m
            \<and> map serializeCell (cells m) = map serializeCell (cells model) @ cs"
  using assms
proof (induction cs arbitrary: model)
  case Nil
  then show ?case by simp
next
  case (Cons c cs)
  let ?cell = "if isMarkdownCell c then createMarkdownCell None model
               else if isCodeCell c then createCodeCell None model
               else createRawCell None model"
  from Cons.prems have pc: "plain_cell c" and rest: "list_all plain_cell cs" by auto
  from deserializeCell_plain [OF pc, of model] obtain cell' where
    d: "deserializeCell c ?cell = Inr cell'" and s: "serializeCell cell' = c"
    by blast
  let ?model1 = "cells_add cell' (if cellText cell' \<noteq> cellText ?cell then model\<lparr>dirty := True\<rparr> else model)"
  from Cons.IH [OF rest, of ?model1] obtain m where
    m: "deserialize_cells cs ?model1 = Inr m"
       "map serializeCell (cells m) = map serializeCell (cells ?model1) @ cs"
    by blast
  have "map serializeCell (cells ?model1) = map serializeCell (cells model) @ [c]"
    by (simp add: map_serializeCell_cells_add s)
  with m have "map serializeCell (cells m) = map serializeCell (cells model) @ c # cs"
    by simp
  moreover have "deserialize_cells (c # cs) model = Inr m"
    using d m(1) by (simp add: Let_def)
  ultimately show ?case by blast
qed

text \<open>
  C6 (as amended). For every document whose cells have a single string as their source
  and whose code cells have outputs of the four known kinds with no stream directly after
  a stream of the same name, and whose format version is the one \<open>serialize\<close> writes,
  \<open>deserialize\<close> into any notebook model succeeds and \<open>serialize\<close> of the result is the
  document again, field for field, the outputs of each code cell in their order.
\<close>

theorem serialize_deserialize_roundtrip:
  assumes "list_all plain_cell (content_cells doc)"
    and "nbformat doc = major" and "nbformat_minor doc = minor"
  shows "\<exists>m. deserialize doc model = Inr m \<and> serialize major minor m = doc"
proof -
  have empty: "cells (cells_clear model) = []"
    by (simp add: cells_clear_def ol_clear_def)
  from deserialize_cells_plain [OF assms(1), of "cells_clear model"] obtain m where
    m: "deserialize_cells (content_cells doc) (cells_clear model) = Inr m"
       "map serializeCell (cells m) = content_cells doc"
    by (auto simp add: empty)
  let ?m = "(if length (cells m) \<noteq> 0 then m\<lparr>selectedCellIndex := Some 0\<rparr> else m)
              \<lparr>metadata := content_metadata doc\<rparr>"
  have d: "deserialize doc model = Inr ?m"
    by (simp add: deserialize_def m(1))
  have c: "cells ?m = cells m" and md: "metadata ?m = content_metadata doc"
    by simp_all
  have "serialize major minor ?m
          = \<lparr>content_cells = content_cells doc, content_metadata = content_metadata doc,
             nbformat = nbformat doc, nbformat_minor = nbformat_minor doc\<rparr>"
    unfolding serialize_def c md
    by (simp add: foldl_snoc [where ?acc0.0 = "[]", simplified] m(2) assms(2,3))
  also have "\<dots> = doc"
    by simp
  finally have "serialize major minor ?m = doc" .
  with d show ?thesis by blast
qed

lemma full_document_plain: "list_all plain_cell (content_cells full_document)"
  by (simp add: full_document_def)

theorem serialize_deserialize_roundtrip_witness:
  "\<exists>m. deserialize full_document new_NotebookModel = Inr m \<and> serialize 4 0 m = full_document"
proof -
  have v: "nbformat full_document = 4" "nbformat_minor full_document = 0"
    by (simp_all add: full_document_def)
  show ?thesis
    using serialize_deserialize_roundtrip [OF full_document_plain v, of new_NotebookModel] .
qed

text \<open>
  The claim as stated, for every well-formed document, fails on a code cell whose outputs
  hold two streams of the same name in a row: \<open>deserializeCell\<close> adds the outputs through
  \<open>add\<close>, which merges them, and \<open>serialize\<close> writes the merged entry. It also fails on
  a cell whose source is a list of lines: the lines are joined, and \<open>serialize\<close> writes
  one string.
\<close>

theorem serialize_deserialize_roundtrip_counterexample:
  "map_sum id (\<lambda>m. content_cells (serialize 4 0 m)) (deserialize split_stream_document new_NotebookModel)
     = Inr [ICodeCell (Single ''print(1)'') [''a''] None False False [Stream ''stdout'' ''ab''] (Some 1)]
   \<and> map_sum id (serialize 4 0) (deserialize split_stream_document new_NotebookModel)
       \<noteq> Inr split_stream_document
   \<and> map_sum id (\<lambda>m. content_cells (serialize 4 0 m)) (deserialize lines_document new_NotebookModel)
       = Inr [IMarkdownCell (Single [CHR ''a'', CHR 0x0A, CHR ''b'']) [] None]
   \<and> map_sum id (serialize 4 0) (deserialize lines_document new_NotebookModel)
       \<noteq> Inr lines_document"
  by (simp add: split_stream_document_def lines_document_def deserialize_def cells_clear_def
      ol_clear_def new_NotebookModel_def createCodeCell_def createMarkdownCell_def
      deserializeCell_def new_CellModel_def createInput_def createEditor_def
      createOutputArea_def new_OutputAreaModel_def cells_add_eq set_activeCellIndex_def Let_def
      set_cellText_def cellText_def enumerate_eq_zip serialize_def serializeCell_def
      OutputAreaModel_add_def ol_get_def ol_set_def ol_add_def norm_index_def)

end
